theory Spec2Isabelle
  imports Main "HOL-Library.Word" "HOL-Library.Signed_Division" "HOL-Library.Multiset"
begin

unbundle bit_operations_syntax

section \<open>Machine integers and the host's socket\<close>

type_synonym u8 = "8 word"
type_synonym u16 = "16 word"
type_synonym u32 = "32 word"
type_synonym u64 = "64 word"

text \<open>
  Signed C values (\<open>s16\<close>, \<open>s32\<close>, \<open>s64\<close>) are stored as words and computed on as
  \<open>int\<close>: \<open>sint\<close> reads a stored value, \<open>word_of_int\<close> is the truncating cast that
  stores one, and \<open>s32\<close> below is the cast \<open>(s32)\<close> on a value being computed.  C's
  \<open>/\<close> on signed operands truncates towards zero (\<open>sdiv\<close>); \<open>>>\<close> on a signed
  operand is the arithmetic shift (\<open>drop_bit\<close> on \<open>int\<close>, rounding down).
\<close>

definition s32 :: "int \<Rightarrow> int" where
  "s32 x = signed_take_bit 31 x"

definition s16 :: "int \<Rightarrow> int" where
  "s16 x = signed_take_bit 15 x"

definition s8 :: "int \<Rightarrow> int" where
  "s8 x = signed_take_bit 7 x"

text \<open>The fields of the host's \<open>struct tcp_sock\<close> that the module reads or writes.\<close>

record tcp_sock =
  srtt_us :: u32
  snd_cwnd :: u32
  snd_ssthresh :: u32

text \<open>
  The window-growth helpers \<open>tcp_slow_start\<close>, \<open>tcp_cong_avoid_ai\<close> and
  \<open>tcp_reno_cong_avoid\<close> belong to the host stack.  A callback that calls one of them
  returns the call it makes, with its arguments.
\<close>

datatype host_call =
    Tcp_slow_start u32
  | Tcp_cong_avoid_ai u32 u32
  | Tcp_reno_cong_avoid u32 u32

section \<open>Base tier (\<open>ndm_tcp_lkm.c\<close>)\<close>

definition ENTROPY_WINDOW_SIZE :: nat where "ENTROPY_WINDOW_SIZE = 16"
definition HIDDEN_SIZE :: nat where "HIDDEN_SIZE = 8"
definition INPUT_SIZE :: nat where "INPUT_SIZE = 8"
definition BASE_PLASTICITY :: u16 where "BASE_PLASTICITY = 300"
definition PLASTICITY_DECAY :: int where "PLASTICITY_DECAY = 995"
definition ENTROPY_THRESHOLD :: u16 where "ENTROPY_THRESHOLD = 700"

record ndm_tcp =
  min_rtt_us :: u32
  prior_cwnd :: u32
  ssthresh :: u32
  rtt_history :: "u16 list"
  history_index :: u16
  history_count :: u16
  hidden_state :: "u16 list"
  shannon_entropy :: u16
  plasticity :: u16
  packets_acked :: u16
  has_data :: bool
  in_slow_start :: bool
  congestion_detected :: bool
  loss_detected :: bool

subsection \<open>\<open>calculate_entropy\<close>\<close>

text \<open>One round of the min/max loop (lines 86-91).\<close>

definition minmax_step :: "u16 \<Rightarrow> u16 \<times> u16 \<Rightarrow> u16 \<times> u16" where
  "minmax_step v = (\<lambda>(min_val, max_val).
     (if v < min_val then v else min_val, if v > max_val then v else max_val))"

text \<open>The bin of one sample (lines 99-100): the \<open>u32\<close> quotient is stored in a \<open>u16\<close>.\<close>

definition bin_of :: "u16 \<Rightarrow> u16 \<Rightarrow> u16 \<Rightarrow> u16" where
  "bin_of min_val rng v =
     min (ucast ((((ucast v :: u32) - ucast min_val) * 15) div ucast rng) :: u16) 15"

definition hist_step :: "u16 \<Rightarrow> u16 \<Rightarrow> u16 \<Rightarrow> u32 list \<Rightarrow> u32 list" where
  "hist_step min_val rng v histogram =
     (let bin = unat (bin_of min_val rng v)
      in histogram[bin := histogram ! bin + 1])"

text \<open>
  \<open>32 - __builtin_clz(x)\<close> is the number of bits of \<open>x\<close>.  The builtin is undefined
  at 0; the estimator only calls it on \<open>p / 1000\<close> with \<open>p \<ge> 62500\<close>.
\<close>

fun bit_length :: "nat \<Rightarrow> nat" where
  "bit_length n = (if n = 0 then 0 else Suc (bit_length (n div 2)))"

declare bit_length.simps [simp del]

definition builtin_clz :: "u32 \<Rightarrow> nat" where
  "builtin_clz x = 32 - bit_length (unat x)"

text \<open>One round of the entropy loop (lines 107-116) on the bin's occupancy \<open>h\<close>.\<close>

definition entropy_step :: "u32 \<Rightarrow> u32 \<Rightarrow> u64 \<Rightarrow> u64" where
  "entropy_step tot h entropy =
     (if h > 0 then
        let p = ((ucast h :: u64) * 1000000) div ucast tot;
            log_p = (if p > 0
                     then (of_nat (32 - builtin_clz (ucast (p div 1000))) :: u32) * 1000
                     else 0)
        in entropy + (p * ucast log_p) div 1000000
      else entropy)"

text \<open>The samples the loops read: \<open>rtt_history[0 .. count - 1]\<close> with
  \<open>count = min_t(u32, history_count, ENTROPY_WINDOW_SIZE)\<close> (line 82).\<close>

definition valid_samples :: "ndm_tcp \<Rightarrow> u16 list" where
  "valid_samples ca =
     take (unat (min (ucast (history_count ca)) 16 :: u32)) (rtt_history ca)"

definition calculate_entropy :: "ndm_tcp \<Rightarrow> u32" where
  "calculate_entropy ca =
     (if history_count ca < 8 then 0
      else
        let count = min (ucast (history_count ca)) 16 :: u32;
            samples = valid_samples ca;
            first = rtt_history ca ! 0;
            (min_val, max_val) = fold minmax_step samples (first, first);
            rng = max_val - min_val
        in if rng = 0 then 0
           else
             let histogram = fold (hist_step min_val rng) samples (replicate 16 0);
                 entropy = fold (entropy_step count) histogram 0
             in ucast (min (entropy div 4) 1000))"

subsection \<open>Activation functions\<close>

text \<open>\<open>tanh_approx\<close> takes an \<open>s32\<close>, computes in \<open>s64\<close> and returns an \<open>s16\<close>.\<close>

definition tanh_approx :: "int \<Rightarrow> int" where
  "tanh_approx x =
     (if x > 3000 then 1000
      else if x < - 3000 then - 1000
      else
        let x2 = (x * x) sdiv 1000;
            x3 = (x2 * x) sdiv 1000
        in s16 (x - x3 sdiv 3))"

definition sigmoid_approx :: "int \<Rightarrow> u32" where
  "sigmoid_approx x =
     (if x > 6000 then 1000
      else if x < - 6000 then 0
      else word_of_int (min 1000 (max 0 (500 + x sdiv 8))))"

subsection \<open>\<open>ndm_forward_pass\<close>\<close>

text \<open>The eight normalised inputs (lines 161-168).\<close>

definition nn_inputs :: "ndm_tcp \<Rightarrow> u32 \<Rightarrow> int list" where
  "nn_inputs ca rtt_us =
     [ s32 (s32 (uint (((ucast rtt_us :: u64) * 1000) div ucast (max (min_rtt_us ca) 1))) - 1000),
       uint (shannon_entropy ca),
       (if in_slow_start ca then 1000 else - 1000),
       (if congestion_detected ca then - 1000 else 1000),
       uint (plasticity ca) - 500,
       (if loss_detected ca then - 1000 else 1000),
       0,
       0 ]"

text \<open>The weight of input \<open>j\<close> into hidden unit \<open>i\<close> (line 175), and of hidden unit \<open>j\<close>
  into the output (line 188).\<close>

definition hidden_weight :: "nat \<Rightarrow> nat \<Rightarrow> int" where
  "hidden_weight i j = int ((i * 37 + j * 17) mod 2000) - 1000"

definition output_weight :: "nat \<Rightarrow> int" where
  "output_weight j = int ((j * 13) mod 2000) - 1000"

text \<open>The pre-activation of hidden unit \<open>i\<close> (lines 172-179), an \<open>s64\<close>.\<close>

definition hidden_sum :: "int list \<Rightarrow> u16 list \<Rightarrow> nat \<Rightarrow> int" where
  "hidden_sum inputs hs i =
     fold (\<lambda>j sum. sum + (inputs ! j * hidden_weight i j) sdiv 1000) [0..<INPUT_SIZE] 0
       + (sint (hs ! i) * 500) sdiv 1000"

text \<open>The new activations \<open>hidden[i]\<close> (line 181); each unit reads only its own old state.\<close>

definition hidden_layer :: "int list \<Rightarrow> u16 list \<Rightarrow> int list" where
  "hidden_layer inputs hs =
     map (\<lambda>i. tanh_approx (s32 (hidden_sum inputs hs i))) [0..<HIDDEN_SIZE]"

definition ndm_forward_pass :: "ndm_tcp \<Rightarrow> u32 \<Rightarrow> ndm_tcp \<times> u32" where
  "ndm_forward_pass ca rtt_us =
     (let inputs = nn_inputs ca rtt_us;
          hidden = hidden_layer inputs (hidden_state ca);
          ca' = ca\<lparr>hidden_state := map word_of_int hidden\<rparr>;
          sum = fold (\<lambda>j sum. sum + (hidden ! j * output_weight j) sdiv 1000)
                  [0..<HIDDEN_SIZE] 0;
          output = s32 sum
      in if shannon_entropy ca > ENTROPY_THRESHOLD
         then (ca', sigmoid_approx (output sdiv 2))
         else (ca', sigmoid_approx output))"

subsection \<open>Plasticity dynamics\<close>

text \<open>The decay at the tail of \<open>ndm_tcp_cong_avoid\<close> (lines 310-312): the product is
  an \<open>int\<close>, the quotient is stored in a \<open>u16\<close>.\<close>

definition plasticity_decay :: "u16 \<Rightarrow> u16" where
  "plasticity_decay p =
     (let p' = word_of_int ((uint p * PLASTICITY_DECAY) sdiv 1000) :: u16
      in if p' < 100 then 100 else p')"

text \<open>The boost \<open>min_t(u16, 1000, ca->plasticity + amount)\<close> (lines 326 and 406).\<close>

definition plasticity_boost :: "int \<Rightarrow> u16 \<Rightarrow> u16" where
  "plasticity_boost amount p = min 1000 (word_of_int (uint p + amount))"

subsection \<open>The callbacks\<close>

definition ndm_tcp_init :: "tcp_sock \<Rightarrow> ndm_tcp \<times> tcp_sock" where
  "ndm_tcp_init tp =
     (\<lparr> min_rtt_us = 0xFFFFFFFF,
        prior_cwnd = snd_cwnd tp,
        ssthresh = snd_ssthresh tp,
        rtt_history = replicate ENTROPY_WINDOW_SIZE 0,
        history_index = 0,
        history_count = 0,
        hidden_state = replicate HIDDEN_SIZE 0,
        shannon_entropy = 0,
        plasticity = BASE_PLASTICITY,
        packets_acked = 0,
        has_data = False,
        in_slow_start = True,
        congestion_detected = False,
        loss_detected = False \<rparr>,
      tp\<lparr>snd_ssthresh := 0x7FFFFFFF\<rparr>)"

text \<open>Lines 242-262: the packet counter, the minimum RTT and the ring of samples.  The
  write index is below 16 in every reachable state (\<open>state_ok\<close> below); the list update
  leaves the ring as it is for an index outside it, where C has no defined behaviour.\<close>

definition track_rtt :: "u32 \<Rightarrow> u32 \<Rightarrow> ndm_tcp \<Rightarrow> ndm_tcp" where
  "track_rtt rtt_us acked ca =
     (let ca1 = ca\<lparr>packets_acked := packets_acked ca + ucast acked\<rparr>;
          ca2 = (if rtt_us < min_rtt_us ca1 then ca1\<lparr>min_rtt_us := rtt_us\<rparr> else ca1);
          rtt_ms0 = min (rtt_us div 1000) 65535;
          rtt_ms = (if rtt_ms0 = 0 then 1 else rtt_ms0);
          ca3 = ca2\<lparr>rtt_history := (rtt_history ca2)[unat (history_index ca2) := ucast rtt_ms]\<rparr>;
          ca4 = ca3\<lparr>history_index :=
                      word_of_int ((uint (history_index ca3) + 1) mod int ENTROPY_WINDOW_SIZE)\<rparr>
      in if history_count ca4 < of_nat ENTROPY_WINDOW_SIZE
         then ca4\<lparr>history_count := history_count ca4 + 1\<rparr> else ca4)"

text \<open>Lines 265-275: the batch boundary.\<close>

definition batch_update :: "ndm_tcp \<Rightarrow> ndm_tcp" where
  "batch_update ca =
     (if packets_acked ca \<ge> 8 then
        let e = ucast (calculate_entropy ca) :: u16
        in ca\<lparr>shannon_entropy := e,
               packets_acked := 0,
               has_data := True,
               congestion_detected := (e < ENTROPY_THRESHOLD),
               loss_detected := False\<rparr>
      else ca)"

text \<open>Lines 284-307: the growth decision, as the host call it makes.\<close>

definition growth_call :: "ndm_tcp \<Rightarrow> tcp_sock \<Rightarrow> u32 \<Rightarrow> u32 \<Rightarrow> u32 \<Rightarrow> host_call" where
  "growth_call ca tp ack acked cwnd_delta =
     (if in_slow_start ca then
        (if congestion_detected ca then Tcp_slow_start (acked div 2)
         else Tcp_slow_start acked)
      else if has_data ca \<and> congestion_detected ca then
        Tcp_cong_avoid_ai (snd_cwnd tp) (max 1 (acked * cwnd_delta div 2000))
      else if has_data ca \<and> \<not> congestion_detected ca then
        Tcp_cong_avoid_ai (snd_cwnd tp) (max 1 (acked * cwnd_delta div 1000))
      else Tcp_reno_cong_avoid ack acked)"

text \<open>Lines 245-247: the smoothed RTT, which the host keeps scaled by 8; never 0.\<close>

definition current_rtt_us :: "tcp_sock \<Rightarrow> u32" where
  "current_rtt_us tp =
     (let rtt_us = drop_bit 3 (srtt_us tp) in if rtt_us = 0 then 1 else rtt_us)"

definition ndm_tcp_cong_avoid ::
  "tcp_sock \<Rightarrow> u32 \<Rightarrow> u32 \<Rightarrow> ndm_tcp \<Rightarrow> ndm_tcp \<times> host_call option" where
  "ndm_tcp_cong_avoid tp ack acked ca =
     (if acked = 0 then (ca, None)
      else
        let rtt_us = current_rtt_us tp;
            ca1 = batch_update (track_rtt rtt_us acked ca);
            ca2 = ca1\<lparr>in_slow_start := (snd_cwnd tp < ssthresh ca1)\<rparr>;
            (ca3, cwnd_delta) = ndm_forward_pass ca2 rtt_us;
            call = growth_call ca3 tp ack acked cwnd_delta
        in (ca3\<lparr>plasticity := plasticity_decay (plasticity ca3)\<rparr>, Some call))"

definition ndm_tcp_ssthresh :: "tcp_sock \<Rightarrow> ndm_tcp \<Rightarrow> ndm_tcp \<times> u32" where
  "ndm_tcp_ssthresh tp ca =
     (let ca1 = ca\<lparr>loss_detected := True\<rparr>;
          ca2 = ca1\<lparr>plasticity := plasticity_boost 100 (plasticity ca1)\<rparr>;
          reduction_factor =
            (if has_data ca2
             then (if shannon_entropy ca2 > ENTROPY_THRESHOLD then 3 else 2)
             else 2) :: u32;
          ca3 = ca2\<lparr>ssthresh := max (snd_cwnd tp div reduction_factor) 2\<rparr>;
          ca4 = ca3\<lparr>prior_cwnd := snd_cwnd tp\<rparr>
      in (ca4, ssthresh ca4))"

definition ndm_tcp_undo_cwnd :: "tcp_sock \<Rightarrow> ndm_tcp \<Rightarrow> ndm_tcp \<times> tcp_sock \<times> u32" where
  "ndm_tcp_undo_cwnd tp ca =
     (let tp' = tp\<lparr>snd_cwnd := max (snd_cwnd tp) (prior_cwnd ca)\<rparr>;
          ca' = ca\<lparr>in_slow_start := (snd_cwnd tp' < ssthresh ca)\<rparr>
      in (ca', tp', max (snd_cwnd tp') (prior_cwnd ca')))"

datatype tcp_ca_event = CA_EVENT_LOSS | CA_EVENT_CWND_RESTART | CA_EVENT_OTHER

definition ndm_tcp_cwnd_event :: "tcp_ca_event \<Rightarrow> ndm_tcp \<Rightarrow> ndm_tcp" where
  "ndm_tcp_cwnd_event ev ca =
     (case ev of
        CA_EVENT_LOSS \<Rightarrow> ca\<lparr>congestion_detected := True, loss_detected := True\<rparr>
      | CA_EVENT_CWND_RESTART \<Rightarrow> ca\<lparr>plasticity := BASE_PLASTICITY\<rparr>
      | CA_EVENT_OTHER \<Rightarrow> ca)"

text \<open>\<open>ndm_tcp_set_state\<close>; the flag says whether the new state is \<open>TCP_CA_Loss\<close>.\<close>

definition ndm_tcp_set_state :: "bool \<Rightarrow> ndm_tcp \<Rightarrow> ndm_tcp" where
  "ndm_tcp_set_state is_loss ca =
     (if is_loss
      then ca\<lparr>congestion_detected := True, loss_detected := True,
              plasticity := plasticity_boost 150 (plasticity ca)\<rparr>
      else ca)"

section \<open>Optimized tier (\<open>ndm_tcp_lkm_optimized.c\<close>)\<close>

text \<open>
  The names of this tier carry the suffix \<open>_opt\<close> (fields: \<open>_o\<close>) where the base tier
  already uses the source's name.  The forward pass is the portable scalar path (the
  \<open>else\<close> branch of line 199); the vector path is an alternative backend for the same
  weighted sums.
\<close>

definition ENTROPY_THRESHOLD_opt :: u16 where "ENTROPY_THRESHOLD_opt = 716"
definition BASE_PLASTICITY_opt :: u16 where "BASE_PLASTICITY_opt = 307"
definition PLASTICITY_DECAY_opt :: u32 where "PLASTICITY_DECAY_opt = 1018"
definition RECURRENT_WEIGHT :: int where "RECURRENT_WEIGHT = 500"
definition SCALE_SHIFT :: nat where "SCALE_SHIFT = 10"

definition L1_WEIGHTS :: "int list" where
  "L1_WEIGHTS =
     [ - 1000, - 983, - 966, - 949, - 932, - 915,
       - 963, - 946, - 929, - 912, - 895, - 878,
       - 926, - 909, - 892, - 875, - 858, - 841,
       - 889, - 872, - 855, - 838, - 821, - 804 ]"

definition OUT_WEIGHTS :: "int list" where
  "OUT_WEIGHTS = [ - 1000, - 987, - 974, - 961 ]"

definition ENTROPY_LUT :: "u16 list" where
  "ENTROPY_LUT = [ 0, 375, 500, 525, 500, 430, 310, 150, 0 ]"

definition TANH_LUT :: "int list" where
  "TANH_LUT =
     [ - 1018, - 1016, - 1012, - 1005, - 993, - 973, - 941, - 894,
       - 826, - 736, - 626, - 502, - 373, - 249, - 135, - 34,
       68, 168, 281, 404, 529, 649, 755, 841,
       906, 950, 979, 996, 1007, 1013, 1017, 1019,
       1020, 1021, 1022, 1022, 1023, 1023, 1023, 1024,
       1024, 1024, 1024, 1024, 1024, 1024, 1024, 1024,
       1024, 1024, 1024, 1024, 1024, 1024, 1024, 1024,
       1024, 1024, 1024, 1024, 1024, 1024, 1024, 1024,
       1024 ]"

text \<open>The source lists 64 values for the 65 entries; the last one is zero-initialised.\<close>

definition SIGMOID_LUT :: "u16 list" where
  "SIGMOID_LUT =
     [ 47, 58, 71, 87, 106, 129, 156, 187, 222, 261, 303, 348, 395, 443, 492, 540,
       587, 632, 675, 715, 752, 786, 816, 843, 867, 887, 905, 920, 933, 944, 953, 961,
       967, 973, 977, 981, 984, 987, 989, 991, 993, 994, 995, 996, 997, 997, 998, 998,
       999, 999, 999, 1000, 1000, 1000, 1000, 1000, 1000, 1000, 1000, 1000, 1000, 1000, 1000, 1000 ]
     @ [0]"

definition FLAG_HAS_DATA :: u8 where "FLAG_HAS_DATA = 1"
definition FLAG_SLOW_START :: u8 where "FLAG_SLOW_START = 2"
definition FLAG_CONGESTION :: u8 where "FLAG_CONGESTION = 4"
definition FLAG_LOSS :: u8 where "FLAG_LOSS = 8"

record ndm_tcp_opt =
  min_rtt_us_o :: u32
  prior_cwnd_o :: u32
  ssthresh_o :: u32
  cached_cwnd_delta_o :: u32
  plasticity_o :: u16
  shannon_entropy_o :: u16
  packets_acked_o :: u16
  history_index_o :: u8
  history_count_o :: u8
  flags_o :: u8
  nn_skip_counter_o :: u8
  hidden_state_o :: "u16 list"
  rtt_history_o :: "u16 list"

definition set_flag :: "u8 \<Rightarrow> ndm_tcp_opt \<Rightarrow> ndm_tcp_opt" where
  "set_flag flag ca = ca\<lparr>flags_o := flags_o ca OR flag\<rparr>"

definition clear_flag :: "u8 \<Rightarrow> ndm_tcp_opt \<Rightarrow> ndm_tcp_opt" where
  "clear_flag flag ca = ca\<lparr>flags_o := flags_o ca AND NOT flag\<rparr>"

definition check_flag :: "ndm_tcp_opt \<Rightarrow> u8 \<Rightarrow> bool" where
  "check_flag ca flag \<longleftrightarrow> flags_o ca AND flag \<noteq> 0"

definition fast_tanh :: "int \<Rightarrow> int" where
  "fast_tanh x =
     (if x \<le> - 3072 then - 1024
      else if x \<ge> 3072 then 1024
      else let idx = drop_bit 6 (x + 3072) in TANH_LUT ! nat (idx AND 63))"

definition fast_sigmoid :: "int \<Rightarrow> u32" where
  "fast_sigmoid x =
     (if x \<le> - 3072 then 0
      else if x \<ge> 3072 then 1024
      else let idx = drop_bit 6 (x + 3072) in ucast (SIGMOID_LUT ! nat (idx AND 63)))"

subsection \<open>\<open>calculate_entropy_fast\<close>\<close>

definition minmax_init_opt :: "u16 \<times> u16" where
  "minmax_init_opt = (0xFFFF, 0)"

text \<open>The bin of one sample (lines 134-135); the difference is an \<open>int\<close>, converted to
  \<open>u32\<close> by the product with \<open>scale\<close>.\<close>

definition bin_of_opt :: "u16 \<Rightarrow> u32 \<Rightarrow> u16 \<Rightarrow> u32" where
  "bin_of_opt min_val scale v =
     (let bin = drop_bit 16 (((ucast v :: u32) - ucast min_val) * scale)
      in if bin > 7 then 7 else bin)"

definition hist_step_opt :: "u16 \<Rightarrow> u32 \<Rightarrow> u16 \<Rightarrow> u32 list \<Rightarrow> u32 list" where
  "hist_step_opt min_val scale v histogram =
     (let bin = unat (bin_of_opt min_val scale v)
      in histogram[bin := histogram ! bin + 1])"

text \<open>One round of the table loop (line 140).  \<open>ENTROPY_LUT\<close> has 9 entries and a bin
  holds at most \<open>history_count \<le> 8\<close> samples.\<close>

definition lut_step_opt :: "u32 \<Rightarrow> u32 \<Rightarrow> u32" where
  "lut_step_opt h entropy =
     (if h \<noteq> 0 then entropy + ucast (ENTROPY_LUT ! unat h) else entropy)"

text \<open>The samples the loops read: \<open>rtt_history[0 .. history_count - 1]\<close>.\<close>

definition valid_samples_opt :: "ndm_tcp_opt \<Rightarrow> u16 list" where
  "valid_samples_opt ca = take (unat (history_count_o ca)) (rtt_history_o ca)"

definition calculate_entropy_fast :: "ndm_tcp_opt \<Rightarrow> u32" where
  "calculate_entropy_fast ca =
     (let samples = valid_samples_opt ca;
          (min_val, max_val) = fold minmax_step samples minmax_init_opt;
          rng = max_val - min_val
      in if rng = 0 then 0
         else
           let scale = 458752 div ucast rng :: u32;
               histogram = fold (hist_step_opt min_val scale) samples (replicate 8 0)
           in fold lut_step_opt histogram 0)"

subsection \<open>\<open>ndm_forward_pass_opt\<close>\<close>

definition input_vec_opt :: "ndm_tcp_opt \<Rightarrow> u32 \<Rightarrow> int list" where
  "input_vec_opt ca rtt_us =
     (let scaled_rtt = push_bit SCALE_SHIFT (ucast rtt_us :: u64) div ucast (max 1 (min_rtt_us_o ca))
      in [ uint (min scaled_rtt 2048) - 1024,
           uint (shannon_entropy_o ca),
           (if check_flag ca FLAG_SLOW_START then 1024 else - 1024),
           (if check_flag ca FLAG_CONGESTION then - 1024 else 1024),
           uint (plasticity_o ca) - 512,
           (if check_flag ca FLAG_LOSS then - 1024 else 1024) ])"

text \<open>Lines 201-206: the weighted sum of hidden unit \<open>i\<close>.  With \<open>u16\<close> fields and
  weights of magnitude at most 1000 the \<open>s32\<close> sums cannot overflow.\<close>

definition hidden_accum_opt :: "int list \<Rightarrow> nat \<Rightarrow> int" where
  "hidden_accum_opt input_vec i =
     (let w = drop (i * 6) L1_WEIGHTS
      in input_vec ! 0 * w ! 0 + input_vec ! 1 * w ! 1 + input_vec ! 2 * w ! 2
         + input_vec ! 3 * w ! 3 + input_vec ! 4 * w ! 4 + input_vec ! 5 * w ! 5)"

definition hidden_layer_opt :: "int list \<Rightarrow> u16 list \<Rightarrow> int list" where
  "hidden_layer_opt input_vec hs =
     map (\<lambda>i. fast_tanh (drop_bit SCALE_SHIFT
                 (hidden_accum_opt input_vec i + sint (hs ! i) * RECURRENT_WEIGHT)))
       [0..<4]"

definition ndm_forward_pass_opt :: "ndm_tcp_opt \<Rightarrow> u32 \<Rightarrow> ndm_tcp_opt \<times> u32" where
  "ndm_forward_pass_opt ca rtt_us =
     (let hidden = hidden_layer_opt (input_vec_opt ca rtt_us) (hidden_state_o ca);
          ca' = ca\<lparr>hidden_state_o := map word_of_int hidden\<rparr>;
          output_sum = drop_bit SCALE_SHIFT
             (fold (\<lambda>i sum. sum + sint (hidden_state_o ca' ! i) * OUT_WEIGHTS ! i) [0..<4] 0)
      in if shannon_entropy_o ca > ENTROPY_THRESHOLD_opt
         then (ca', fast_sigmoid (drop_bit 1 output_sum))
         else (ca', fast_sigmoid output_sum))"

subsection \<open>The callbacks\<close>

definition ndm_tcp_init_opt :: "tcp_sock \<Rightarrow> ndm_tcp_opt \<times> tcp_sock" where
  "ndm_tcp_init_opt tp =
     (\<lparr> min_rtt_us_o = 0xFFFFFFFF,
        prior_cwnd_o = snd_cwnd tp,
        ssthresh_o = snd_ssthresh tp,
        cached_cwnd_delta_o = 512,
        plasticity_o = BASE_PLASTICITY_opt,
        shannon_entropy_o = 0,
        packets_acked_o = 0,
        history_index_o = 0,
        history_count_o = 0,
        flags_o = FLAG_SLOW_START,
        nn_skip_counter_o = 0,
        hidden_state_o = replicate 4 0,
        rtt_history_o = replicate 8 0 \<rparr>,
      tp\<lparr>snd_ssthresh := 0x7FFFFFFF\<rparr>)"

text \<open>Lines 248-254.\<close>

definition track_rtt_opt :: "u32 \<Rightarrow> u32 \<Rightarrow> ndm_tcp_opt \<Rightarrow> ndm_tcp_opt" where
  "track_rtt_opt rtt_us acked ca =
     (let ca1 = ca\<lparr>packets_acked_o := packets_acked_o ca + ucast acked\<rparr>;
          ca2 = (if rtt_us < min_rtt_us_o ca1 then ca1\<lparr>min_rtt_us_o := rtt_us\<rparr> else ca1);
          ca3 = ca2\<lparr>rtt_history_o :=
                      (rtt_history_o ca2)[unat (history_index_o ca2) :=
                                            ucast (min (rtt_us div 1000) 65535)]\<rparr>;
          ca4 = ca3\<lparr>history_index_o := word_of_int ((uint (history_index_o ca3) + 1) mod 8)\<rparr>
      in if history_count_o ca4 < 8
         then ca4\<lparr>history_count_o := history_count_o ca4 + 1\<rparr> else ca4)"

text \<open>Lines 256-263.\<close>

definition batch_update_opt :: "ndm_tcp_opt \<Rightarrow> ndm_tcp_opt" where
  "batch_update_opt ca =
     (if packets_acked_o ca \<ge> 16 then
        let ca1 = ca\<lparr>shannon_entropy_o := ucast (calculate_entropy_fast ca)\<rparr>;
            ca2 = ca1\<lparr>packets_acked_o := 0\<rparr>;
            ca3 = set_flag FLAG_HAS_DATA ca2;
            ca4 = (if shannon_entropy_o ca3 < ENTROPY_THRESHOLD_opt
                   then set_flag FLAG_CONGESTION ca3 else clear_flag FLAG_CONGESTION ca3)
        in clear_flag FLAG_LOSS ca4
      else ca)"

text \<open>Lines 268-275: reuse the cached growth signal, or run the network and refresh it.\<close>

definition nn_or_cache_opt :: "ndm_tcp_opt \<Rightarrow> u32 \<Rightarrow> ndm_tcp_opt \<times> u32" where
  "nn_or_cache_opt ca rtt_us =
     (if shannon_entropy_o ca < 500 \<and> plasticity_o ca > 800 \<and> nn_skip_counter_o ca < 8
      then (ca\<lparr>nn_skip_counter_o := nn_skip_counter_o ca + 1\<rparr>, cached_cwnd_delta_o ca)
      else
        let (ca1, cwnd_delta) = ndm_forward_pass_opt ca rtt_us
        in (ca1\<lparr>cached_cwnd_delta_o := cwnd_delta, nn_skip_counter_o := 0\<rparr>, cwnd_delta))"

definition growth_call_opt :: "ndm_tcp_opt \<Rightarrow> tcp_sock \<Rightarrow> u32 \<Rightarrow> u32 \<Rightarrow> u32 \<Rightarrow> host_call" where
  "growth_call_opt ca tp ack acked cwnd_delta =
     (if check_flag ca FLAG_SLOW_START then
        Tcp_slow_start (if check_flag ca FLAG_CONGESTION then drop_bit 1 acked else acked)
      else if check_flag ca FLAG_HAS_DATA then
        (let shift = (if check_flag ca FLAG_CONGESTION then 11 else 10)
         in Tcp_cong_avoid_ai (snd_cwnd tp) (max 1 (drop_bit shift (acked * cwnd_delta))))
      else Tcp_reno_cong_avoid ack acked)"

definition plasticity_decay_opt :: "u16 \<Rightarrow> u16" where
  "plasticity_decay_opt p =
     (let p' = ucast (drop_bit 10 ((ucast p :: u32) * PLASTICITY_DECAY_opt)) :: u16
      in if p' < 100 then 100 else p')"

definition ndm_tcp_cong_avoid_opt ::
  "tcp_sock \<Rightarrow> u32 \<Rightarrow> u32 \<Rightarrow> ndm_tcp_opt \<Rightarrow> ndm_tcp_opt \<times> host_call option" where
  "ndm_tcp_cong_avoid_opt tp ack acked ca =
     (if acked = 0 then (ca, None)
      else
        let rtt_us = max (drop_bit 3 (srtt_us tp)) 1;
            ca1 = batch_update_opt (track_rtt_opt rtt_us acked ca);
            ca2 = (if snd_cwnd tp < ssthresh_o ca1
                   then set_flag FLAG_SLOW_START ca1 else clear_flag FLAG_SLOW_START ca1);
            (ca3, cwnd_delta) = nn_or_cache_opt ca2 rtt_us;
            call = growth_call_opt ca3 tp ack acked cwnd_delta
        in (ca3\<lparr>plasticity_o := plasticity_decay_opt (plasticity_o ca3)\<rparr>, Some call))"

definition ndm_tcp_ssthresh_opt :: "tcp_sock \<Rightarrow> ndm_tcp_opt \<Rightarrow> ndm_tcp_opt \<times> u32" where
  "ndm_tcp_ssthresh_opt tp ca =
     (let ca1 = set_flag (FLAG_LOSS OR FLAG_CONGESTION) ca;
          ca2 = ca1\<lparr>plasticity_o := ucast (min 1024 ((ucast (plasticity_o ca1) :: u32) + 100))\<rparr>;
          ca3 = ca2\<lparr>ssthresh_o :=
                  max (snd_cwnd tp div (if shannon_entropy_o ca2 > ENTROPY_THRESHOLD_opt
                                        then 3 else 2)) 2\<rparr>;
          ca4 = ca3\<lparr>prior_cwnd_o := snd_cwnd tp\<rparr>
      in (ca4, ssthresh_o ca4))"

definition ndm_tcp_undo_cwnd_opt ::
  "tcp_sock \<Rightarrow> ndm_tcp_opt \<Rightarrow> ndm_tcp_opt \<times> tcp_sock \<times> u32" where
  "ndm_tcp_undo_cwnd_opt tp ca =
     (let tp' = tp\<lparr>snd_cwnd := max (snd_cwnd tp) (prior_cwnd_o ca)\<rparr>;
          ca' = (if snd_cwnd tp' < ssthresh_o ca then set_flag FLAG_SLOW_START ca else ca)
      in (ca', tp', snd_cwnd tp'))"

definition ndm_tcp_cwnd_event_opt :: "tcp_ca_event \<Rightarrow> ndm_tcp_opt \<Rightarrow> ndm_tcp_opt" where
  "ndm_tcp_cwnd_event_opt ev ca =
     (case ev of
        CA_EVENT_LOSS \<Rightarrow> set_flag (FLAG_CONGESTION OR FLAG_LOSS) ca
      | CA_EVENT_CWND_RESTART \<Rightarrow> ca\<lparr>plasticity_o := BASE_PLASTICITY_opt\<rparr>
      | CA_EVENT_OTHER \<Rightarrow> ca)"

definition ndm_tcp_set_state_opt :: "bool \<Rightarrow> ndm_tcp_opt \<Rightarrow> ndm_tcp_opt" where
  "ndm_tcp_set_state_opt is_loss ca =
     (if is_loss
      then (let ca1 = set_flag (FLAG_CONGESTION OR FLAG_LOSS) ca
            in ca1\<lparr>plasticity_o := word_of_int (min 1024 (uint (plasticity_o ca1) + 150))\<rparr>)
      else ca)"

section \<open>Ultra tier (\<open>ndm_tcp_lkm_optimized_ultra.c\<close>)\<close>

text \<open>Names carry the suffix \<open>_ultra\<close> (fields: \<open>_u\<close>).  The flag bits are those of the
  optimized tier.\<close>

definition ENTROPY_THRESHOLD_ultra :: u8 where "ENTROPY_THRESHOLD_ultra = 180"
definition BASE_PLASTICITY_ultra :: u8 where "BASE_PLASTICITY_ultra = 76"
definition RECURRENT_WEIGHT_ultra :: int where "RECURRENT_WEIGHT_ultra = 62"
definition FP_SCALE :: nat where "FP_SCALE = 7"

definition L1_WEIGHTS_ultra :: "int list" where
  "L1_WEIGHTS_ultra =
     [ - 125, - 123, - 121, - 119, - 117, - 115,
       - 120, - 118, - 116, - 114, - 112, - 110,
       - 115, - 113, - 111, - 109, - 107, - 105,
       - 111, - 109, - 107, - 105, - 103, - 101 ]"

definition OUT_WEIGHTS_ultra :: "int list" where
  "OUT_WEIGHTS_ultra = [ - 125, - 123, - 121, - 120 ]"

definition ENTROPY_LUT_ultra :: "u8 list" where
  "ENTROPY_LUT_ultra = [ 0, 47, 63, 66, 63, 54, 39, 19, 0 ]"

definition TANH_LUT_S8 :: "int list" where
  "TANH_LUT_S8 =
     [ - 127, - 127, - 127, - 127, - 127, - 127, - 127, - 127, - 127, - 127, - 127, - 127, - 127, - 127, - 126, - 126,
       - 126, - 125, - 125, - 124, - 124, - 123, - 122, - 121, - 120, - 119, - 118, - 117, - 115, - 114, - 112, - 110,
       - 108, - 106, - 104, - 101, - 99, - 96, - 93, - 90, - 87, - 84, - 80, - 77, - 73, - 69, - 65, - 61,
       - 57, - 53, - 49, - 45, - 40, - 36, - 32, - 27, - 23, - 19, - 14, - 10, - 6, - 2, 2, 6,
       10, 14, 19, 23, 27, 32, 36, 40, 45, 49, 53, 57, 61, 65, 69, 73,
       77, 80, 84, 87, 90, 93, 96, 99, 101, 104, 106, 108, 110, 112, 114, 115,
       117, 118, 119, 120, 121, 122, 123, 124, 124, 125, 125, 126, 126, 126, 127, 127,
       127, 127, 127, 127, 127, 127, 127, 127, 127, 127, 127, 127, 127, 127, 127, 127 ]
     @ replicate 128 127"

record ndm_tcp_ultra =
  min_rtt_us_u :: u32
  prior_cwnd_u :: u32
  ssthresh_u :: u32
  cached_cwnd_delta_u :: u32
  packets_acked_u :: u16
  plasticity_u :: u8
  shannon_entropy_u :: u8
  history_index_u :: u8
  history_count_u :: u8
  flags_u :: u8
  nn_skip_counter_u :: u8
  hidden_state_u :: "u8 list"
  rtt_history_u :: "u8 list"

definition set_flag_ultra :: "u8 \<Rightarrow> ndm_tcp_ultra \<Rightarrow> ndm_tcp_ultra" where
  "set_flag_ultra flag ca = ca\<lparr>flags_u := flags_u ca OR flag\<rparr>"

definition clear_flag_ultra :: "u8 \<Rightarrow> ndm_tcp_ultra \<Rightarrow> ndm_tcp_ultra" where
  "clear_flag_ultra flag ca = ca\<lparr>flags_u := flags_u ca AND NOT flag\<rparr>"

definition check_flag_ultra :: "ndm_tcp_ultra \<Rightarrow> u8 \<Rightarrow> bool" where
  "check_flag_ultra ca flag \<longleftrightarrow> flags_u ca AND flag \<noteq> 0"

definition fast_tanh_s8 :: "int \<Rightarrow> int" where
  "fast_tanh_s8 x =
     (let idx = x + 128
      in if idx < 0 then - 127
         else if idx > 255 then 127
         else TANH_LUT_S8 ! nat idx)"

definition fast_sigmoid_u32 :: "int \<Rightarrow> u32" where
  "fast_sigmoid_u32 x =
     (if x \<le> - 64 then 0
      else if x \<ge> 64 then 1024
      else word_of_int (push_bit 3 (x + 64)))"

subsection \<open>\<open>calculate_entropy_fast_u8\<close>\<close>

definition minmax_step_ultra :: "u8 \<Rightarrow> u8 \<times> u8 \<Rightarrow> u8 \<times> u8" where
  "minmax_step_ultra v = (\<lambda>(min_val, max_val).
     (if v < min_val then v else min_val, if v > max_val then v else max_val))"

definition bin_shift_ultra :: "u8 \<Rightarrow> nat" where
  "bin_shift_ultra rng =
     (if rng > 128 then 5
      else if rng > 64 then 4
      else if rng > 32 then 3
      else if rng > 16 then 2
      else if rng > 8 then 1
      else 0)"

text \<open>Lines 160-162: the difference is an \<open>int\<close>, the shifted value is stored in a \<open>u8\<close>.\<close>

definition hist_step_ultra :: "u8 \<Rightarrow> nat \<Rightarrow> u8 \<Rightarrow> u8 list \<Rightarrow> u8 list" where
  "hist_step_ultra min_val shift v histogram =
     (let bin0 = word_of_int (drop_bit shift (uint v - uint min_val)) :: u8;
          bin = unat (if bin0 > 7 then 7 else bin0)
      in histogram[bin := histogram ! bin + 1])"

definition lut_step_ultra :: "u8 \<Rightarrow> u8 \<Rightarrow> u8" where
  "lut_step_ultra h entropy =
     (if h \<noteq> 0 then entropy + ENTROPY_LUT_ultra ! unat h else entropy)"

text \<open>The loops of this tier run over all 8 slots of the ring, whatever the count.\<close>

definition calculate_entropy_fast_u8 :: "ndm_tcp_ultra \<Rightarrow> u8" where
  "calculate_entropy_fast_u8 ca =
     (let samples = take 8 (rtt_history_u ca);
          (min_val, max_val) = fold minmax_step_ultra samples (255, 0);
          rng = max_val - min_val
      in if rng = 0 then 0
         else
           let shift = bin_shift_ultra rng;
               histogram = fold (hist_step_ultra min_val shift) samples (replicate 8 0)
           in fold lut_step_ultra histogram 0)"

subsection \<open>\<open>ndm_forward_pass_int8\<close>\<close>

definition input_vec_ultra :: "ndm_tcp_ultra \<Rightarrow> u32 \<Rightarrow> int list" where
  "input_vec_ultra ca rtt_us =
     (let scaled_rtt = drop_bit 6 rtt_us
      in [ s8 (uint (min scaled_rtt 127)),
           s8 (uint (shannon_entropy_u ca) - 128),
           (if check_flag_ultra ca FLAG_SLOW_START then 127 else - 127),
           (if check_flag_ultra ca FLAG_CONGESTION then - 127 else 127),
           s8 (uint (plasticity_u ca) - 128),
           (if check_flag_ultra ca FLAG_LOSS then - 127 else 127) ])"

definition hidden_accum_ultra :: "int list \<Rightarrow> nat \<Rightarrow> int" where
  "hidden_accum_ultra input_vec i =
     (let w = drop (i * 6) L1_WEIGHTS_ultra
      in input_vec ! 0 * w ! 0 + input_vec ! 1 * w ! 1 + input_vec ! 2 * w ! 2
         + input_vec ! 3 * w ! 3 + input_vec ! 4 * w ! 4 + input_vec ! 5 * w ! 5)"

definition hidden_layer_ultra :: "int list \<Rightarrow> u8 list \<Rightarrow> int list" where
  "hidden_layer_ultra input_vec hs =
     map (\<lambda>i. fast_tanh_s8 (drop_bit FP_SCALE (hidden_accum_ultra input_vec i)
                            + drop_bit FP_SCALE (sint (hs ! i) * RECURRENT_WEIGHT_ultra)))
       [0..<4]"

definition ndm_forward_pass_int8 :: "ndm_tcp_ultra \<Rightarrow> u32 \<Rightarrow> ndm_tcp_ultra \<times> u32" where
  "ndm_forward_pass_int8 ca rtt_us =
     (let hidden = hidden_layer_ultra (input_vec_ultra ca rtt_us) (hidden_state_u ca);
          ca' = ca\<lparr>hidden_state_u := map word_of_int hidden\<rparr>;
          output_sum = drop_bit FP_SCALE
             (fold (\<lambda>i sum. sum + sint (hidden_state_u ca' ! i) * OUT_WEIGHTS_ultra ! i)
                [0..<4] 0)
      in if shannon_entropy_u ca > ENTROPY_THRESHOLD_ultra
         then (ca', fast_sigmoid_u32 (drop_bit 1 output_sum))
         else (ca', fast_sigmoid_u32 output_sum))"

subsection \<open>The acknowledgment callback\<close>

definition ndm_tcp_init_ultra :: "tcp_sock \<Rightarrow> ndm_tcp_ultra \<times> tcp_sock" where
  "ndm_tcp_init_ultra tp =
     (\<lparr> min_rtt_us_u = 0xFFFFFFFF,
        prior_cwnd_u = snd_cwnd tp,
        ssthresh_u = snd_ssthresh tp,
        cached_cwnd_delta_u = 512,
        packets_acked_u = 0,
        plasticity_u = BASE_PLASTICITY_ultra,
        shannon_entropy_u = 0,
        history_index_u = 0,
        history_count_u = 0,
        flags_u = FLAG_SLOW_START,
        nn_skip_counter_u = 0,
        hidden_state_u = replicate 4 0,
        rtt_history_u = replicate 8 0 \<rparr>,
      tp\<lparr>snd_ssthresh := 0x7FFFFFFF\<rparr>)"

definition track_rtt_ultra :: "u32 \<Rightarrow> u32 \<Rightarrow> ndm_tcp_ultra \<Rightarrow> ndm_tcp_ultra" where
  "track_rtt_ultra rtt_us acked ca =
     (let ca1 = ca\<lparr>packets_acked_u := packets_acked_u ca + ucast acked\<rparr>;
          ca2 = (if rtt_us < min_rtt_us_u ca1 then ca1\<lparr>min_rtt_us_u := rtt_us\<rparr> else ca1);
          ca3 = ca2\<lparr>rtt_history_u :=
                      (rtt_history_u ca2)[unat (history_index_u ca2) :=
                                            ucast (min (drop_bit 5 rtt_us) 255)]\<rparr>;
          ca4 = ca3\<lparr>history_index_u := (history_index_u ca3 + 1) AND 7\<rparr>
      in if history_count_u ca4 < 8
         then ca4\<lparr>history_count_u := history_count_u ca4 + 1\<rparr> else ca4)"

definition batch_update_ultra :: "ndm_tcp_ultra \<Rightarrow> ndm_tcp_ultra" where
  "batch_update_ultra ca =
     (if packets_acked_u ca \<ge> 16 then
        let ca1 = ca\<lparr>shannon_entropy_u := calculate_entropy_fast_u8 ca\<rparr>;
            ca2 = ca1\<lparr>packets_acked_u := 0\<rparr>;
            ca3 = set_flag_ultra FLAG_HAS_DATA ca2;
            ca4 = (if shannon_entropy_u ca3 < ENTROPY_THRESHOLD_ultra
                   then set_flag_ultra FLAG_CONGESTION ca3
                   else clear_flag_ultra FLAG_CONGESTION ca3)
        in clear_flag_ultra FLAG_LOSS ca4
      else ca)"

text \<open>Lines 283-290: reuse the cached growth signal, or run the network and refresh it.\<close>

definition nn_or_cache_ultra :: "ndm_tcp_ultra \<Rightarrow> u32 \<Rightarrow> ndm_tcp_ultra \<times> u32" where
  "nn_or_cache_ultra ca rtt_us =
     (if shannon_entropy_u ca < 128 \<and> plasticity_u ca > 200 \<and> nn_skip_counter_u ca < 16
      then (ca\<lparr>nn_skip_counter_u := nn_skip_counter_u ca + 1\<rparr>, cached_cwnd_delta_u ca)
      else
        let (ca1, cwnd_delta) = ndm_forward_pass_int8 ca rtt_us
        in (ca1\<lparr>cached_cwnd_delta_u := cwnd_delta, nn_skip_counter_u := 0\<rparr>, cwnd_delta))"

definition growth_call_ultra ::
  "ndm_tcp_ultra \<Rightarrow> tcp_sock \<Rightarrow> u32 \<Rightarrow> u32 \<Rightarrow> u32 \<Rightarrow> host_call" where
  "growth_call_ultra ca tp ack acked cwnd_delta =
     (if check_flag_ultra ca FLAG_SLOW_START then
        Tcp_slow_start (if check_flag_ultra ca FLAG_CONGESTION then drop_bit 1 acked else acked)
      else if check_flag_ultra ca FLAG_HAS_DATA then
        (let shift = (if check_flag_ultra ca FLAG_CONGESTION then 11 else 10)
         in Tcp_cong_avoid_ai (snd_cwnd tp) (max 1 (drop_bit shift (acked * cwnd_delta))))
      else Tcp_reno_cong_avoid ack acked)"

definition ndm_tcp_cong_avoid_ultra ::
  "tcp_sock \<Rightarrow> u32 \<Rightarrow> u32 \<Rightarrow> ndm_tcp_ultra \<Rightarrow> ndm_tcp_ultra \<times> host_call option" where
  "ndm_tcp_cong_avoid_ultra tp ack acked ca =
     (if acked = 0 then (ca, None)
      else
        let rtt_us = max (drop_bit 3 (srtt_us tp)) 1;
            ca1 = batch_update_ultra (track_rtt_ultra rtt_us acked ca);
            ca2 = (if snd_cwnd tp < ssthresh_u ca1
                   then set_flag_ultra FLAG_SLOW_START ca1
                   else clear_flag_ultra FLAG_SLOW_START ca1);
            (ca3, cwnd_delta) = nn_or_cache_ultra ca2 rtt_us;
            call = growth_call_ultra ca3 tp ack acked cwnd_delta
        in (if plasticity_u ca3 > 25 then ca3\<lparr>plasticity_u := plasticity_u ca3 - 1\<rparr> else ca3,
            Some call))"

definition ndm_tcp_ssthresh_ultra :: "tcp_sock \<Rightarrow> ndm_tcp_ultra \<Rightarrow> ndm_tcp_ultra \<times> u32" where
  "ndm_tcp_ssthresh_ultra tp ca =
     (let ca1 = set_flag_ultra (FLAG_LOSS OR FLAG_CONGESTION) ca;
          ca2 = ca1\<lparr>plasticity_u := ucast (min 255 ((ucast (plasticity_u ca1) :: u32) + 40))\<rparr>;
          ca3 = ca2\<lparr>ssthresh_u :=
                  max (snd_cwnd tp div (if shannon_entropy_u ca2 > ENTROPY_THRESHOLD_ultra
                                        then 3 else 2)) 2\<rparr>;
          ca4 = ca3\<lparr>prior_cwnd_u := snd_cwnd tp\<rparr>
      in (ca4, ssthresh_u ca4))"

definition ndm_tcp_undo_cwnd_ultra ::
  "tcp_sock \<Rightarrow> ndm_tcp_ultra \<Rightarrow> ndm_tcp_ultra \<times> tcp_sock \<times> u32" where
  "ndm_tcp_undo_cwnd_ultra tp ca =
     (let tp' = tp\<lparr>snd_cwnd := max (snd_cwnd tp) (prior_cwnd_u ca)\<rparr>;
          ca' = (if snd_cwnd tp' < ssthresh_u ca then set_flag_ultra FLAG_SLOW_START ca else ca)
      in (ca', tp', snd_cwnd tp'))"

definition ndm_tcp_cwnd_event_ultra :: "tcp_ca_event \<Rightarrow> ndm_tcp_ultra \<Rightarrow> ndm_tcp_ultra" where
  "ndm_tcp_cwnd_event_ultra ev ca =
     (case ev of
        CA_EVENT_LOSS \<Rightarrow> set_flag_ultra (FLAG_CONGESTION OR FLAG_LOSS) ca
      | CA_EVENT_CWND_RESTART \<Rightarrow> ca\<lparr>plasticity_u := BASE_PLASTICITY_ultra\<rparr>
      | CA_EVENT_OTHER \<Rightarrow> ca)"

definition ndm_tcp_set_state_ultra :: "bool \<Rightarrow> ndm_tcp_ultra \<Rightarrow> ndm_tcp_ultra" where
  "ndm_tcp_set_state_ultra is_loss ca =
     (if is_loss
      then (let ca1 = set_flag_ultra (FLAG_CONGESTION OR FLAG_LOSS) ca
            in ca1\<lparr>plasticity_u := word_of_int (min 255 (uint (plasticity_u ca1) + 50))\<rparr>)
      else ca)"

section \<open>Hyper tier (\<open>ndm_tcp_lkm_hyp.c\<close>)\<close>

text \<open>Names carry the suffix \<open>_hyp\<close> (fields: \<open>_h\<close>).  This tier keeps no window
  threshold, no saved window and no packet counter.\<close>

definition MAX_P :: u32 where "MAX_P = 600"
definition BASE :: u32 where "BASE = 100"

record ndm_tcp_hyp =
  min_rtt_h :: u32
  last_ack_h :: u32
  plasticity_h :: u16
  entropy_hist_h :: u8
  entropy_val_h :: u8
  rtt_var_h :: u16

text \<open>\<open>hweight8\<close>: the number of set bits of a byte.\<close>

definition hweight8 :: "u8 \<Rightarrow> u8" where
  "hweight8 w = of_nat (length (filter (bit w) [0..<8]))"

definition update_entropy :: "u32 \<Rightarrow> ndm_tcp_hyp \<Rightarrow> ndm_tcp_hyp" where
  "update_entropy current_rtt ca =
     (let trend = (if current_rtt > ucast (rtt_var_h ca) then 1 else 0) :: u8;
          ca1 = ca\<lparr>entropy_hist_h := push_bit 1 (entropy_hist_h ca) OR trend\<rparr>;
          ca2 = ca1\<lparr>rtt_var_h := ucast current_rtt\<rparr>
      in ca2\<lparr>entropy_val_h :=
               hweight8 (entropy_hist_h ca2 XOR drop_bit 1 (entropy_hist_h ca2))\<rparr>)"

text \<open>\<open>hyper_manifold\<close> returns an \<open>s32\<close>; the \<open>u32\<close> products wrap, \<open>sint\<close> is the cast
  \<open>(s32)\<close>.\<close>

definition hyper_manifold :: "tcp_sock \<Rightarrow> ndm_tcp_hyp \<Rightarrow> int" where
  "hyper_manifold tp ca =
     (let rtt = drop_bit 3 (srtt_us tp);
          grad0 = sint ((snd_cwnd tp * ucast (plasticity_h ca)) div BASE);
          grad1 = s32 (grad0 - uint (entropy_val_h ca) * 4);
          diff = rtt - min_rtt_h ca;
          mask = (if rtt > min_rtt_h ca then - 1 else 0) :: int
      in s32 (grad1 + (mask AND s32 (- sint ((diff * ucast (plasticity_h ca)) div BASE)))))"

definition ndm_tcp_init_hyp :: "ndm_tcp_hyp" where
  "ndm_tcp_init_hyp =
     \<lparr> min_rtt_h = 0xFFFFFFFF, last_ack_h = 0, plasticity_h = 100,
       entropy_hist_h = 0, entropy_val_h = 0, rtt_var_h = 0 \<rparr>"

definition ndm_tcp_set_state_hyp :: "bool \<Rightarrow> ndm_tcp_hyp \<Rightarrow> ndm_tcp_hyp" where
  "ndm_tcp_set_state_hyp is_loss ca =
     (if is_loss
      then (let p = (ucast (plasticity_h ca) :: u32) + 50
            in ca\<lparr>plasticity_h := ucast (if p > MAX_P then MAX_P else p)\<rparr>)
      else ca)"

text \<open>\<open>tcp_is_cwnd_limited\<close> is the host's test; its answer is the first argument.  In
  congestion avoidance the callback either increments \<open>snd_cwnd\<close> itself or calls the
  host's additive increase.\<close>

definition ndm_tcp_cong_avoid_hyp ::
  "bool \<Rightarrow> tcp_sock \<Rightarrow> u32 \<Rightarrow> u32 \<Rightarrow> ndm_tcp_hyp
     \<Rightarrow> ndm_tcp_hyp \<times> tcp_sock \<times> host_call option" where
  "ndm_tcp_cong_avoid_hyp is_cwnd_limited tp ack acked ca =
     (let rtt = drop_bit 3 (srtt_us tp)
      in if \<not> is_cwnd_limited then (ca, tp, None)
         else
           let ca1 = update_entropy rtt ca;
               ca2 = (if rtt < min_rtt_h ca1 \<or> min_rtt_h ca1 = 0
                      then ca1\<lparr>min_rtt_h := rtt\<rparr> else ca1)
           in if snd_cwnd tp \<le> snd_ssthresh tp then (ca2, tp, Some (Tcp_slow_start acked))
              else if hyper_manifold tp ca2 > 0
              then (ca2, tp\<lparr>snd_cwnd := snd_cwnd tp + 1\<rparr>, None)
              else (ca2, tp, Some (Tcp_cong_avoid_ai (snd_cwnd tp) 1)))"

definition ndm_tcp_ssthresh_hyp :: "tcp_sock \<Rightarrow> ndm_tcp_hyp \<Rightarrow> ndm_tcp_hyp \<times> u32" where
  "ndm_tcp_ssthresh_hyp tp ca =
     (let ca' = (if plasticity_h ca > 100
                 then ca\<lparr>plasticity_h := word_of_int (drop_bit 2 (uint (plasticity_h ca) * 3))\<rparr>
                 else ca)
      in (ca', max 2 (drop_bit 1 (snd_cwnd tp))))"

definition ndm_tcp_undo :: "tcp_sock \<Rightarrow> u32" where
  "ndm_tcp_undo tp = snd_cwnd tp"

section \<open>The host driving a connection\<close>

text \<open>
  The host calls the callbacks of \<open>ndm_tcp_ops\<close> one at a time, in any order, each with
  the socket as it then is.  A reachable connection state is the state after \<open>ndm_tcp_init\<close>
  and any list of such calls.
\<close>

datatype host_event =
    On_ack tcp_sock u32 u32
  | On_ssthresh tcp_sock
  | On_undo_cwnd tcp_sock
  | On_cwnd_event tcp_ca_event
  | On_set_state bool

fun dispatch :: "host_event \<Rightarrow> ndm_tcp \<Rightarrow> ndm_tcp" where
  "dispatch (On_ack tp ack acked) ca = fst (ndm_tcp_cong_avoid tp ack acked ca)"
| "dispatch (On_ssthresh tp) ca = fst (ndm_tcp_ssthresh tp ca)"
| "dispatch (On_undo_cwnd tp) ca = fst (ndm_tcp_undo_cwnd tp ca)"
| "dispatch (On_cwnd_event ev) ca = ndm_tcp_cwnd_event ev ca"
| "dispatch (On_set_state is_loss) ca = ndm_tcp_set_state is_loss ca"

definition run :: "tcp_sock \<Rightarrow> host_event list \<Rightarrow> ndm_tcp" where
  "run tp0 evs = fold dispatch evs (fst (ndm_tcp_init tp0))"

fun dispatch_opt :: "host_event \<Rightarrow> ndm_tcp_opt \<Rightarrow> ndm_tcp_opt" where
  "dispatch_opt (On_ack tp ack acked) ca = fst (ndm_tcp_cong_avoid_opt tp ack acked ca)"
| "dispatch_opt (On_ssthresh tp) ca = fst (ndm_tcp_ssthresh_opt tp ca)"
| "dispatch_opt (On_undo_cwnd tp) ca = fst (ndm_tcp_undo_cwnd_opt tp ca)"
| "dispatch_opt (On_cwnd_event ev) ca = ndm_tcp_cwnd_event_opt ev ca"
| "dispatch_opt (On_set_state is_loss) ca = ndm_tcp_set_state_opt is_loss ca"

definition run_opt :: "tcp_sock \<Rightarrow> host_event list \<Rightarrow> ndm_tcp_opt" where
  "run_opt tp0 evs = fold dispatch_opt evs (fst (ndm_tcp_init_opt tp0))"

fun dispatch_ultra :: "host_event \<Rightarrow> ndm_tcp_ultra \<Rightarrow> ndm_tcp_ultra" where
  "dispatch_ultra (On_ack tp ack acked) ca = fst (ndm_tcp_cong_avoid_ultra tp ack acked ca)"
| "dispatch_ultra (On_ssthresh tp) ca = fst (ndm_tcp_ssthresh_ultra tp ca)"
| "dispatch_ultra (On_undo_cwnd tp) ca = fst (ndm_tcp_undo_cwnd_ultra tp ca)"
| "dispatch_ultra (On_cwnd_event ev) ca = ndm_tcp_cwnd_event_ultra ev ca"
| "dispatch_ultra (On_set_state is_loss) ca = ndm_tcp_set_state_ultra is_loss ca"

definition run_ultra :: "tcp_sock \<Rightarrow> host_event list \<Rightarrow> ndm_tcp_ultra" where
  "run_ultra tp0 evs = fold dispatch_ultra evs (fst (ndm_tcp_init_ultra tp0))"

text \<open>
  What every reachable state of the base tier satisfies: the ring has its 16 slots and
  its index and count stay inside it, the entropy score is 0 until the first batch has
  been processed and never exceeds the scale, and plasticity is between floor and
  ceiling.
\<close>

definition state_ok :: "ndm_tcp \<Rightarrow> bool" where
  "state_ok ca \<longleftrightarrow>
     length (rtt_history ca) = 16 \<and> history_index ca < 16 \<and> history_count ca \<le> 16
     \<and> (has_data ca \<or> shannon_entropy ca = 0) \<and> shannon_entropy ca \<le> 1000
     \<and> 100 \<le> plasticity ca \<and> plasticity ca \<le> 1000"

section \<open>Properties of the base tier\<close>

subsection \<open>Word arithmetic\<close>

lemma uint_word_of_int_u16: "0 \<le> k \<Longrightarrow> k < 65536 \<Longrightarrow> uint (word_of_int k :: u16) = k"
  by (simp add: uint_word_of_int)

lemma ucast_le_1000: "ucast (min (e div 4) 1000 :: u64) \<le> (1000 :: u32)"
proof -
  have "min (e div 4) 1000 \<le> (1000 :: u64)" by simp
  then have "uint (min (e div 4) 1000 :: u64) \<le> 1000"
    by (simp only: word_le_def) simp
  moreover have "uint (ucast (min (e div 4) 1000 :: u64) :: u32) \<le> uint (min (e div 4) 1000 :: u64)"
    by (simp only: unsigned_ucast_eq) (simp add: take_bit_eq_mod zmod_le_nonneg_dividend)
  ultimately show ?thesis
    by (simp only: word_le_def) simp
qed

lemma calculate_entropy_le: "calculate_entropy ca \<le> 1000"
  using ucast_le_1000
  by (simp add: calculate_entropy_def Let_def split: prod.splits)

lemma plasticity_decay_bounds:
  assumes "100 \<le> p" "p \<le> 1000"
  shows "100 \<le> plasticity_decay p \<and> plasticity_decay p \<le> p"
proof -
  from assms have u: "100 \<le> uint p" "uint p \<le> 1000"
    by (simp_all add: word_le_def)
  let ?q = "(uint p * 995) div 1000"
  have q: "?q \<le> uint p" "0 \<le> ?q" using u by auto
  have sd: "(uint p * 995) sdiv 1000 = ?q"
    using u by (simp add: signed_divide_int_def sgn_if)
  have uq: "uint (word_of_int ?q :: u16) = ?q"
    using q u by (intro uint_word_of_int_u16) auto
  show ?thesis
    using u q uq assms
    by (auto simp: plasticity_decay_def PLASTICITY_DECAY_def Let_def sd word_le_def word_less_def)
qed

lemma plasticity_boost_bounds:
  assumes "100 \<le> p" "p \<le> 1000" "0 \<le> a" "a \<le> 1000"
  shows "100 \<le> plasticity_boost a p \<and> plasticity_boost a p \<le> 1000 \<and> p \<le> plasticity_boost a p"
proof -
  from assms have u: "100 \<le> uint p" "uint p \<le> 1000"
    by (simp_all add: word_le_def)
  have uq: "uint (word_of_int (uint p + a) :: u16) = uint p + a"
    using u assms by (intro uint_word_of_int_u16) auto
  then have uq': "uint (p + word_of_int a) = uint p + a"
    by simp
  have m: "uint (plasticity_boost a p) = min 1000 (uint p + a)"
    by (simp add: plasticity_boost_def min_def word_le_def uq')
  show ?thesis
    unfolding word_le_def m using u assms by simp
qed


lemma fst_ndm_forward_pass:
  "fst (ndm_forward_pass ca r) =
     ca\<lparr>hidden_state := map word_of_int (hidden_layer (nn_inputs ca r) (hidden_state ca))\<rparr>"
  by (simp add: ndm_forward_pass_def Let_def)

lemma fst_ndm_tcp_cong_avoid:
  "acked \<noteq> 0 \<Longrightarrow>
   fst (ndm_tcp_cong_avoid tp ack acked ca) =
     (let ca1 = batch_update (track_rtt (current_rtt_us tp) acked ca);
          ca2 = ca1\<lparr>in_slow_start := (snd_cwnd tp < ssthresh ca1)\<rparr>;
          ca3 = fst (ndm_forward_pass ca2 (current_rtt_us tp))
      in ca3\<lparr>plasticity := plasticity_decay (plasticity ca3)\<rparr>)"
  by (simp add: ndm_tcp_cong_avoid_def Let_def split: prod.splits)

lemma snd_ndm_tcp_cong_avoid:
  "acked \<noteq> 0 \<Longrightarrow>
   snd (ndm_tcp_cong_avoid tp ack acked ca) =
     (let ca1 = batch_update (track_rtt (current_rtt_us tp) acked ca);
          ca2 = ca1\<lparr>in_slow_start := (snd_cwnd tp < ssthresh ca1)\<rparr>;
          (ca3, cwnd_delta) = ndm_forward_pass ca2 (current_rtt_us tp)
      in Some (growth_call ca3 tp ack acked cwnd_delta))"
  by (simp add: ndm_tcp_cong_avoid_def Let_def split: prod.splits)

lemma calculate_entropy_short: "history_count ca < 8 \<Longrightarrow> calculate_entropy ca = 0"
  by (simp add: calculate_entropy_def)

lemma ucast_calculate_entropy_le: "(ucast (calculate_entropy ca) :: u16) \<le> 1000"
proof -
  have "uint (calculate_entropy ca) \<le> 1000"
    using calculate_entropy_le [of ca] by (simp only: word_le_def) simp
  moreover have "uint (ucast (calculate_entropy ca) :: u16) \<le> uint (calculate_entropy ca)"
    by (simp only: unsigned_ucast_eq) (simp add: take_bit_eq_mod zmod_le_nonneg_dividend)
  ultimately show ?thesis
    by (simp only: word_le_def) simp
qed

lemma track_rtt_ring:
  assumes "length (rtt_history ca) = 16" "history_count ca \<le> 16"
  shows "length (rtt_history (track_rtt r acked ca)) = 16"
    and "history_index (track_rtt r acked ca) < 16"
    and "history_count (track_rtt r acked ca) \<le> 16"
proof -
  show "length (rtt_history (track_rtt r acked ca)) = 16"
    using assms by (simp add: track_rtt_def Let_def)
  have "(uint (history_index ca) + 1) mod 16 < 16" "0 \<le> (uint (history_index ca) + 1) mod 16"
    by simp_all
  then have "uint (word_of_int ((uint (history_index ca) + 1) mod 16) :: u16) < 16"
    by (subst uint_word_of_int_u16) auto
  then show "history_index (track_rtt r acked ca) < 16"
    by (simp add: track_rtt_def Let_def ENTROPY_WINDOW_SIZE_def word_less_def)
  show "history_count (track_rtt r acked ca) \<le> 16"
    using assms(2) by (auto simp: track_rtt_def Let_def ENTROPY_WINDOW_SIZE_def intro: inc_le)
qed

lemma track_rtt_other:
  "has_data (track_rtt r acked ca) = has_data ca"
  "shannon_entropy (track_rtt r acked ca) = shannon_entropy ca"
  "plasticity (track_rtt r acked ca) = plasticity ca"
  "loss_detected (track_rtt r acked ca) = loss_detected ca"
  "congestion_detected (track_rtt r acked ca) = congestion_detected ca"
  "packets_acked (track_rtt r acked ca) = packets_acked ca + ucast acked"
  by (simp_all add: track_rtt_def Let_def)

lemma state_ok_batch_update: "state_ok ca \<Longrightarrow> state_ok (batch_update ca)"
  using ucast_calculate_entropy_le [of ca]
  by (simp add: state_ok_def batch_update_def Let_def)

lemma state_ok_track_rtt: "state_ok ca \<Longrightarrow> state_ok (track_rtt r acked ca)"
  using track_rtt_ring [of ca r acked]
  by (simp add: state_ok_def track_rtt_other)

lemma state_ok_cong_avoid:
  assumes "state_ok ca"
  shows "state_ok (fst (ndm_tcp_cong_avoid tp ack acked ca))"
proof (cases "acked = 0")
  case True
  with assms show ?thesis by (simp add: ndm_tcp_cong_avoid_def)
next
  case False
  let ?ca1 = "batch_update (track_rtt (current_rtt_us tp) acked ca)"
  have ok: "state_ok ?ca1"
    using assms by (intro state_ok_batch_update state_ok_track_rtt)
  then have p: "100 \<le> plasticity ?ca1" "plasticity ?ca1 \<le> 1000"
    by (simp_all add: state_ok_def)
  from plasticity_decay_bounds [OF p] p(2)
  have "100 \<le> plasticity_decay (plasticity ?ca1)" "plasticity_decay (plasticity ?ca1) \<le> 1000"
    by auto
  with ok False show ?thesis
    by (simp add: fst_ndm_tcp_cong_avoid fst_ndm_forward_pass Let_def state_ok_def)
qed

lemma state_ok_init: "state_ok (fst (ndm_tcp_init tp))"
  by (simp add: state_ok_def ndm_tcp_init_def ENTROPY_WINDOW_SIZE_def BASE_PLASTICITY_def)

lemma state_ok_ssthresh: "state_ok ca \<Longrightarrow> state_ok (fst (ndm_tcp_ssthresh tp ca))"
  using plasticity_boost_bounds [of "plasticity ca" 100]
  by (simp add: state_ok_def ndm_tcp_ssthresh_def Let_def)

lemma state_ok_undo: "state_ok ca \<Longrightarrow> state_ok (fst (ndm_tcp_undo_cwnd tp ca))"
  by (simp add: state_ok_def ndm_tcp_undo_cwnd_def Let_def)

lemma state_ok_cwnd_event: "state_ok ca \<Longrightarrow> state_ok (ndm_tcp_cwnd_event ev ca)"
  by (cases ev) (simp_all add: state_ok_def ndm_tcp_cwnd_event_def BASE_PLASTICITY_def)

lemma state_ok_set_state: "state_ok ca \<Longrightarrow> state_ok (ndm_tcp_set_state b ca)"
  using plasticity_boost_bounds [of "plasticity ca" 150]
  by (simp add: state_ok_def ndm_tcp_set_state_def)

lemma state_ok_dispatch: "state_ok ca \<Longrightarrow> state_ok (dispatch ev ca)"
  by (cases ev)
     (simp_all add: state_ok_cong_avoid state_ok_ssthresh state_ok_undo state_ok_cwnd_event
        state_ok_set_state)

lemma state_ok_fold: "state_ok ca \<Longrightarrow> state_ok (fold dispatch evs ca)"
  by (induction evs arbitrary: ca) (simp_all add: state_ok_dispatch)

lemma state_ok_run: "state_ok (run tp0 evs)"
  unfolding run_def by (rule state_ok_fold) (rule state_ok_init)


lemma decay_iter_bounds:
  assumes "100 \<le> p" "p \<le> 1000"
  shows "100 \<le> (plasticity_decay ^^ n) p \<and> (plasticity_decay ^^ n) p \<le> 1000"
proof (induction n)
  case 0
  with assms show ?case by simp
next
  case (Suc n)
  then have a: "100 \<le> (plasticity_decay ^^ n) p" and b: "(plasticity_decay ^^ n) p \<le> 1000"
    by simp_all
  from plasticity_decay_bounds [OF a b] b show ?case by auto
qed

lemma decay_boost_fold_bounds:
  assumes "100 \<le> p" "p \<le> 1000"
  shows "100 \<le> fold (\<lambda>b. if b then plasticity_boost 100 else plasticity_decay) bs p
         \<and> fold (\<lambda>b. if b then plasticity_boost 100 else plasticity_decay) bs p \<le> 1000"
  using assms
proof (induction bs arbitrary: p)
  case Nil
  then show ?case by simp
next
  case (Cons b bs)
  show ?case
  proof (cases b)
    case True
    from plasticity_boost_bounds [OF Cons.prems, of 100]
    have "100 \<le> plasticity_boost 100 p" "plasticity_boost 100 p \<le> 1000" by simp_all
    from Cons.IH [OF this] True show ?thesis by simp
  next
    case False
    from plasticity_decay_bounds [OF Cons.prems] Cons.prems(2)
    have "100 \<le> plasticity_decay p" "plasticity_decay p \<le> 1000" by auto
    from Cons.IH [OF this] False show ?thesis by simp
  qed
qed

text \<open>
  C5.  In every reachable state of the base tier plasticity lies between the floor 100
  and the ceiling 1000.  From such a value repeated decays never go below the floor and
  never increase (each decay multiplies by 995/1000 and clamps at 100), and any sequence
  of decays and boosts (each boost adds 100, clamped at 1000) stays between floor and
  ceiling.
\<close>

theorem plasticity_within_bounds:
  "let p = plasticity (run tp0 evs)
   in 100 \<le> p \<and> p \<le> 1000
      \<and> (\<forall>n. 100 \<le> (plasticity_decay ^^ n) p
               \<and> (plasticity_decay ^^ Suc n) p \<le> (plasticity_decay ^^ n) p)
      \<and> (\<forall>bs. 100 \<le> fold (\<lambda>b. if b then plasticity_boost 100 else plasticity_decay) bs p
               \<and> fold (\<lambda>b. if b then plasticity_boost 100 else plasticity_decay) bs p \<le> 1000)"
proof -
  let ?p = "plasticity (run tp0 evs)"
  have p: "100 \<le> ?p" "?p \<le> 1000"
    using state_ok_run [of tp0 evs] by (simp_all add: state_ok_def)
  have "100 \<le> (plasticity_decay ^^ n) ?p
        \<and> (plasticity_decay ^^ Suc n) ?p \<le> (plasticity_decay ^^ n) ?p" for n
  proof -
    from decay_iter_bounds [OF p, of n]
    have a: "100 \<le> (plasticity_decay ^^ n) ?p" and b: "(plasticity_decay ^^ n) ?p \<le> 1000"
      by simp_all
    from plasticity_decay_bounds [OF a b] a show ?thesis by simp
  qed
  with p decay_boost_fold_bounds [OF p] show ?thesis
    by (simp add: Let_def)
qed

text \<open>One reduce request after initialisation: 300 is boosted to 400, which a decay
  takes to 398.\<close>

theorem plasticity_within_bounds_witness:
  "let p = plasticity (run \<lparr>srtt_us = 80000, snd_cwnd = 10, snd_ssthresh = 100\<rparr>
                         [On_ssthresh \<lparr>srtt_us = 80000, snd_cwnd = 10, snd_ssthresh = 100\<rparr>])
   in p = 400 \<and> 100 \<le> p \<and> p \<le> 1000 \<and> plasticity_decay p = 398"
  using plasticity_within_bounds
    [of "\<lparr>srtt_us = 80000, snd_cwnd = 10, snd_ssthresh = 100\<rparr>"
        "[On_ssthresh \<lparr>srtt_us = 80000, snd_cwnd = 10, snd_ssthresh = 100\<rparr>]"]
  by (simp add: Let_def run_def ndm_tcp_init_def ndm_tcp_ssthresh_def plasticity_boost_def
        plasticity_decay_def BASE_PLASTICITY_def PLASTICITY_DECAY_def signed_divide_int_def)

text \<open>
  C2.  A reduce request at window \<open>w\<close> returns and stores \<open>max (w / d) 2\<close>, where \<open>d\<close> is 3
  when the stored entropy score is above the tier's threshold and 2 otherwise, and stores
  \<open>w\<close> as \<open>prior_cwnd\<close>; the result is at least 2.  For the base tier this holds in every
  reachable state (its \<open>has_data\<close> test never changes the divisor there), for the
  optimized tier in every state.
\<close>

theorem ssthresh_reduction:
  "(let ca = run tp0 evs;
        (ca', r) = ndm_tcp_ssthresh tp ca;
        d = (if shannon_entropy ca > ENTROPY_THRESHOLD then 3 else 2)
    in r = max (snd_cwnd tp div d) 2 \<and> ssthresh ca' = r \<and> prior_cwnd ca' = snd_cwnd tp
       \<and> 2 \<le> r)
   \<and> (let (cb', r) = ndm_tcp_ssthresh_opt tp cb;
           d = (if shannon_entropy_o cb > ENTROPY_THRESHOLD_opt then 3 else 2)
       in r = max (snd_cwnd tp div d) 2 \<and> ssthresh_o cb' = r \<and> prior_cwnd_o cb' = snd_cwnd tp
          \<and> 2 \<le> r)"
proof -
  have "has_data (run tp0 evs) \<or> shannon_entropy (run tp0 evs) = 0"
    using state_ok_run [of tp0 evs] by (simp add: state_ok_def)
  then have "has_data (run tp0 evs) \<or> \<not> shannon_entropy (run tp0 evs) > ENTROPY_THRESHOLD"
    by (auto simp: ENTROPY_THRESHOLD_def)
  then show ?thesis
    by (auto simp: ndm_tcp_ssthresh_def ndm_tcp_ssthresh_opt_def Let_def set_flag_def)
qed

text \<open>The window 100 gives 50 with entropy below the threshold and 33 above it.\<close>

theorem ssthresh_reduction_witness:
  "(let (ca', r) = ndm_tcp_ssthresh \<lparr>srtt_us = 80000, snd_cwnd = 100, snd_ssthresh = 200\<rparr>
                     (run \<lparr>srtt_us = 80000, snd_cwnd = 10, snd_ssthresh = 200\<rparr> [])
    in r = 50 \<and> ssthresh ca' = 50 \<and> prior_cwnd ca' = 100)
   \<and> (let (cb', r) = ndm_tcp_ssthresh_opt \<lparr>srtt_us = 80000, snd_cwnd = 100, snd_ssthresh = 200\<rparr>
                        ((fst (ndm_tcp_init_opt \<lparr>srtt_us = 80000, snd_cwnd = 10, snd_ssthresh = 200\<rparr>))
                           \<lparr>shannon_entropy_o := 810\<rparr>)
       in r = 33 \<and> ssthresh_o cb' = 33 \<and> prior_cwnd_o cb' = 100)"
  using ssthresh_reduction
    [of "\<lparr>srtt_us = 80000, snd_cwnd = 10, snd_ssthresh = 200\<rparr>" "[]"
        "\<lparr>srtt_us = 80000, snd_cwnd = 100, snd_ssthresh = 200\<rparr>"
        "(fst (ndm_tcp_init_opt \<lparr>srtt_us = 80000, snd_cwnd = 10, snd_ssthresh = 200\<rparr>))
           \<lparr>shannon_entropy_o := 810\<rparr>"]
  by (simp add: Let_def split_def run_def ndm_tcp_init_def ndm_tcp_init_opt_def
        ENTROPY_THRESHOLD_def ENTROPY_THRESHOLD_opt_def)

text \<open>
  C10.  On a freshly initialised state of the base tier, one acknowledgment whose count
  brings the 16-bit batch counter to 8 or more sets \<open>has_data\<close> and
  \<open>congestion_detected\<close> although the history then holds a single sample: the entropy
  estimate is 0, below the threshold, and the growth decision is no longer the Reno
  fallback.
\<close>

theorem single_ack_reaches_batch:
  assumes "8 \<le> (ucast acked :: u16)"
  shows "let (ca, call) = ndm_tcp_cong_avoid tp ack acked (fst (ndm_tcp_init tp0))
         in has_data ca \<and> congestion_detected ca \<and> history_count ca = 1
            \<and> shannon_entropy ca = 0 \<and> call \<noteq> Some (Tcp_reno_cong_avoid ack acked)"
proof -
  from assms have nz: "acked \<noteq> 0" by auto
  let ?ca1 = "track_rtt (current_rtt_us tp) acked (fst (ndm_tcp_init tp0))"
  have cnt: "history_count ?ca1 = 1" and pk: "packets_acked ?ca1 = ucast acked"
    by (simp_all add: track_rtt_def ndm_tcp_init_def Let_def ENTROPY_WINDOW_SIZE_def)
  have e0: "calculate_entropy ?ca1 = 0"
    by (rule calculate_entropy_short) (simp add: cnt)
  have b: "batch_update ?ca1 = ?ca1\<lparr>shannon_entropy := 0, packets_acked := 0, has_data := True,
             congestion_detected := True, loss_detected := False\<rparr>"
    using assms by (simp add: batch_update_def pk e0 ENTROPY_THRESHOLD_def)
  show ?thesis
    using nz
    apply (simp add: split_def fst_ndm_tcp_cong_avoid snd_ndm_tcp_cong_avoid Let_def
             fst_ndm_forward_pass b cnt)
    apply (simp add: growth_call_def ndm_forward_pass_def Let_def)
    done
qed

text \<open>One acknowledgment of 8 packets.\<close>

theorem single_ack_reaches_batch_witness:
  "8 \<le> (ucast (8 :: u32) :: u16)
   \<and> (let (ca, call) = ndm_tcp_cong_avoid \<lparr>srtt_us = 80000, snd_cwnd = 10, snd_ssthresh = 100\<rparr> 0 8
                          (fst (ndm_tcp_init \<lparr>srtt_us = 80000, snd_cwnd = 10, snd_ssthresh = 100\<rparr>))
       in has_data ca \<and> congestion_detected ca \<and> history_count ca = 1 \<and> shannon_entropy ca = 0
          \<and> call \<noteq> Some (Tcp_reno_cong_avoid 0 8))"
proof -
  have h: "8 \<le> (ucast (8 :: u32) :: u16)" by simp
  from single_ack_reaches_batch [OF h] h show ?thesis by blast
qed

subsection \<open>The entropy estimators\<close>

lemma minmax_step_pair:
  "minmax_step v (mn, mx) = (if v < mn then v else mn, if v > mx then v else mx)"
  by (simp add: minmax_step_def)

lemma minmax_fold_const:
  "\<forall>x\<in>set xs. x = v \<Longrightarrow> fold minmax_step xs (v, v) = (v, v)"
  by (induction xs) (simp_all add: minmax_step_pair)

lemma valid_samples_first:
  assumes "8 \<le> history_count ca" "valid_samples ca \<noteq> []"
  shows "rtt_history ca ! 0 \<in> set (valid_samples ca)"
proof -
  from assms(2) have "rtt_history ca \<noteq> []"
    by (auto simp: valid_samples_def)
  moreover from assms(2) have "0 < unat (min (ucast (history_count ca)) 16 :: u32)"
    by (auto simp: valid_samples_def intro: gr0I)
  ultimately have "valid_samples ca ! 0 = rtt_history ca ! 0"
    by (simp add: valid_samples_def)
  with assms(2) show ?thesis
    by (metis length_greater_0_conv nth_mem)
qed

lemma calculate_entropy_equal:
  assumes "\<forall>x\<in>set (valid_samples ca). x = v"
  shows "calculate_entropy ca = 0"
proof (cases "history_count ca < 8")
  case True
  then show ?thesis by (simp add: calculate_entropy_def)
next
  case False
  then have c: "8 \<le> history_count ca" by simp
  show ?thesis
  proof (cases "valid_samples ca = []")
    case True
    then show ?thesis by (simp add: calculate_entropy_def Let_def)
  next
    case ne: False
    from valid_samples_first [OF c ne] assms have "rtt_history ca ! 0 = v" by blast
    with minmax_fold_const [OF assms] show ?thesis
      by (simp add: calculate_entropy_def Let_def)
  qed
qed

lemma minmax_fold:
  "fold minmax_step xs (mn, mx) = (Min (insert mn (set xs)), Max (insert mx (set xs)))"
proof (induction xs arbitrary: mn mx)
  case Nil
  then show ?case by simp
next
  case (Cons x xs)
  have a: "Min (insert (if x < mn then x else mn) (set xs)) = Min (insert mn (insert x (set xs)))"
    by (cases "set xs = {}") (auto simp: min_def)
  have b: "Max (insert (if mx < x then x else mx) (set xs)) = Max (insert mx (insert x (set xs)))"
    by (cases "set xs = {}") (auto simp: max_def)
  show ?case
    by (simp add: Cons.IH minmax_step_pair a b)
qed


lemma hist_step_commute:
  "hist_step mn r x (hist_step mn r y h) = hist_step mn r y (hist_step mn r x h)"
proof (cases "bin_of mn r x = bin_of mn r y")
  case True
  then show ?thesis by (simp add: hist_step_def Let_def)
next
  case False
  then have "unat (bin_of mn r x) \<noteq> unat (bin_of mn r y)"
    by (simp add: word_unat_eq_iff)
  then show ?thesis
    by (simp add: hist_step_def Let_def list_update_swap)
qed

lemma hist_fold_mset:
  assumes "mset xs = mset ys"
  shows "fold (hist_step mn r) xs h = fold (hist_step mn r) ys h"
proof -
  have "fold (hist_step mn r) xs = fold (hist_step mn r) ys"
    by (rule fold_multiset_equiv [OF _ assms]) (auto simp: fun_eq_iff hist_step_commute)
  then show ?thesis by simp
qed

lemma minmax_fold_member:
  assumes "a \<in> set xs"
  shows "fold minmax_step xs (a, a) = (Min (set xs), Max (set xs))"
  using assms by (simp add: minmax_fold insert_absorb)

lemma calculate_entropy_mset:
  assumes hc: "history_count ca = history_count cb"
    and ms: "mset (valid_samples ca) = mset (valid_samples cb)"
  shows "calculate_entropy ca = calculate_entropy cb"
proof (cases "history_count ca < 8")
  case True
  with hc show ?thesis by (simp add: calculate_entropy_def)
next
  case False
  then have c: "8 \<le> history_count ca" "8 \<le> history_count cb" using hc by simp_all
  from ms have st: "set (valid_samples ca) = set (valid_samples cb)"
    by (rule mset_eq_setD)
  show ?thesis
  proof (cases "valid_samples ca = []")
    case True
    with ms have "valid_samples cb = []" by simp
    with True show ?thesis by (simp add: calculate_entropy_def Let_def)
  next
    case ne: False
    with ms have ne': "valid_samples cb \<noteq> []" by auto
    have mm: "fold minmax_step (valid_samples ca) (rtt_history ca ! 0, rtt_history ca ! 0)
              = fold minmax_step (valid_samples cb) (rtt_history cb ! 0, rtt_history cb ! 0)"
      using valid_samples_first [OF c(1) ne] valid_samples_first [OF c(2) ne']
      by (simp add: minmax_fold_member st)
    show ?thesis
      unfolding calculate_entropy_def Let_def mm hc hist_fold_mset [OF ms] ..
  qed
qed


lemma minmax_fold_mset:
  assumes "mset xs = mset ys"
  shows "fold minmax_step xs init = fold minmax_step ys init"
proof -
  from assms have "set xs = set ys" by (rule mset_eq_setD)
  then show ?thesis
    by (cases init) (simp add: minmax_fold)
qed

lemma hist_step_opt_commute:
  "hist_step_opt mn sc x (hist_step_opt mn sc y h) = hist_step_opt mn sc y (hist_step_opt mn sc x h)"
proof (cases "bin_of_opt mn sc x = bin_of_opt mn sc y")
  case True
  then show ?thesis by (simp add: hist_step_opt_def Let_def)
next
  case False
  then have "unat (bin_of_opt mn sc x) \<noteq> unat (bin_of_opt mn sc y)"
    by (simp add: word_unat_eq_iff)
  then show ?thesis
    by (simp add: hist_step_opt_def Let_def list_update_swap)
qed

lemma hist_opt_fold_mset:
  assumes "mset xs = mset ys"
  shows "fold (hist_step_opt mn sc) xs h = fold (hist_step_opt mn sc) ys h"
proof -
  have "fold (hist_step_opt mn sc) xs = fold (hist_step_opt mn sc) ys"
    by (rule fold_multiset_equiv [OF _ assms]) (auto simp: fun_eq_iff hist_step_opt_commute)
  then show ?thesis by simp
qed

lemma calculate_entropy_fast_mset:
  assumes ms: "mset (valid_samples_opt ca) = mset (valid_samples_opt cb)"
  shows "calculate_entropy_fast ca = calculate_entropy_fast cb"
  unfolding calculate_entropy_fast_def Let_def minmax_fold_mset [OF ms] hist_opt_fold_mset [OF ms] ..

text \<open>
  C7.  The histogram estimate does not depend on the order of the samples: two base-tier
  states with the same count whose valid samples are the same multiset get the same
  entropy, and so do two optimized-tier states whose valid samples are the same multiset.
\<close>

theorem entropy_order_independent:
  "(history_count ca = history_count cb \<and> mset (valid_samples ca) = mset (valid_samples cb)
      \<longrightarrow> calculate_entropy ca = calculate_entropy cb)
   \<and> (mset (valid_samples_opt oa) = mset (valid_samples_opt ob)
      \<longrightarrow> calculate_entropy_fast oa = calculate_entropy_fast ob)"
  using calculate_entropy_mset calculate_entropy_fast_mset by blast


text \<open>Eight samples, four of 10 ms and four of 50 ms, in two orders; the samples 0 to 7 in
  two orders.\<close>

theorem entropy_order_independent_witness:
  "mset (valid_samples ((fst (ndm_tcp_init \<lparr>srtt_us = 80000, snd_cwnd = 10, snd_ssthresh = 100\<rparr>))\<lparr>history_count := 8, rtt_history := [10, 50, 10, 50, 10, 50, 10, 50] @ replicate 8 0\<rparr>))
     = mset (valid_samples ((fst (ndm_tcp_init \<lparr>srtt_us = 80000, snd_cwnd = 10, snd_ssthresh = 100\<rparr>))\<lparr>history_count := 8, rtt_history := [50, 50, 10, 10, 50, 10, 50, 10] @ replicate 8 0\<rparr>))
   \<and> calculate_entropy ((fst (ndm_tcp_init \<lparr>srtt_us = 80000, snd_cwnd = 10, snd_ssthresh = 100\<rparr>))\<lparr>history_count := 8, rtt_history := [10, 50, 10, 50, 10, 50, 10, 50] @ replicate 8 0\<rparr>)
     = calculate_entropy ((fst (ndm_tcp_init \<lparr>srtt_us = 80000, snd_cwnd = 10, snd_ssthresh = 100\<rparr>))\<lparr>history_count := 8, rtt_history := [50, 50, 10, 10, 50, 10, 50, 10] @ replicate 8 0\<rparr>)
   \<and> mset (valid_samples_opt ((fst (ndm_tcp_init_opt \<lparr>srtt_us = 80000, snd_cwnd = 10, snd_ssthresh = 100\<rparr>))\<lparr>history_count_o := 8, rtt_history_o := [0, 1, 2, 3, 4, 5, 6, 7]\<rparr>))
     = mset (valid_samples_opt ((fst (ndm_tcp_init_opt \<lparr>srtt_us = 80000, snd_cwnd = 10, snd_ssthresh = 100\<rparr>))\<lparr>history_count_o := 8, rtt_history_o := [7, 5, 3, 1, 0, 2, 4, 6]\<rparr>))
   \<and> calculate_entropy_fast ((fst (ndm_tcp_init_opt \<lparr>srtt_us = 80000, snd_cwnd = 10, snd_ssthresh = 100\<rparr>))\<lparr>history_count_o := 8, rtt_history_o := [0, 1, 2, 3, 4, 5, 6, 7]\<rparr>)
     = calculate_entropy_fast ((fst (ndm_tcp_init_opt \<lparr>srtt_us = 80000, snd_cwnd = 10, snd_ssthresh = 100\<rparr>))\<lparr>history_count_o := 8, rtt_history_o := [7, 5, 3, 1, 0, 2, 4, 6]\<rparr>)"
proof -
  have h1: "history_count ((fst (ndm_tcp_init \<lparr>srtt_us = 80000, snd_cwnd = 10, snd_ssthresh = 100\<rparr>))\<lparr>history_count := 8, rtt_history := [10, 50, 10, 50, 10, 50, 10, 50] @ replicate 8 0\<rparr>) = history_count ((fst (ndm_tcp_init \<lparr>srtt_us = 80000, snd_cwnd = 10, snd_ssthresh = 100\<rparr>))\<lparr>history_count := 8, rtt_history := [50, 50, 10, 10, 50, 10, 50, 10] @ replicate 8 0\<rparr>)
      \<and> mset (valid_samples ((fst (ndm_tcp_init \<lparr>srtt_us = 80000, snd_cwnd = 10, snd_ssthresh = 100\<rparr>))\<lparr>history_count := 8, rtt_history := [10, 50, 10, 50, 10, 50, 10, 50] @ replicate 8 0\<rparr>))
        = mset (valid_samples ((fst (ndm_tcp_init \<lparr>srtt_us = 80000, snd_cwnd = 10, snd_ssthresh = 100\<rparr>))\<lparr>history_count := 8, rtt_history := [50, 50, 10, 10, 50, 10, 50, 10] @ replicate 8 0\<rparr>))"
    by (simp add: valid_samples_def ndm_tcp_init_def)
  have h2: "mset (valid_samples_opt ((fst (ndm_tcp_init_opt \<lparr>srtt_us = 80000, snd_cwnd = 10, snd_ssthresh = 100\<rparr>))\<lparr>history_count_o := 8, rtt_history_o := [0, 1, 2, 3, 4, 5, 6, 7]\<rparr>))
        = mset (valid_samples_opt ((fst (ndm_tcp_init_opt \<lparr>srtt_us = 80000, snd_cwnd = 10, snd_ssthresh = 100\<rparr>))\<lparr>history_count_o := 8, rtt_history_o := [7, 5, 3, 1, 0, 2, 4, 6]\<rparr>))"
    by (simp add: valid_samples_opt_def ndm_tcp_init_opt_def)
  from entropy_order_independent [THEN conjunct1, rule_format, OF h1]
       entropy_order_independent [THEN conjunct2, rule_format, OF h2] h1 h2
  show ?thesis by blast
qed

text \<open>
  C4.  When all valid samples are equal the base tier's entropy estimate is 0.  At a batch
  boundary (the acknowledgment brings the packet counter to 8 or more) where the history,
  with this acknowledgment's sample recorded, holds equal samples, the controller stores
  entropy 0, sets \<open>congestion_detected\<close> and \<open>has_data\<close> and clears \<open>loss_detected\<close>.
\<close>

theorem equal_samples_entropy_zero:
  "((\<forall>x\<in>set (valid_samples ca). x = v) \<longrightarrow> calculate_entropy ca = 0)
   \<and> (acked \<noteq> 0 \<and> 8 \<le> packets_acked ca + ucast acked
        \<and> (\<forall>x\<in>set (valid_samples (track_rtt (current_rtt_us tp) acked ca)). x = v)
      \<longrightarrow> (let ca' = fst (ndm_tcp_cong_avoid tp ack acked ca)
           in shannon_entropy ca' = 0 \<and> congestion_detected ca' \<and> has_data ca'
              \<and> \<not> loss_detected ca'))"
proof (intro conjI impI)
  assume "\<forall>x\<in>set (valid_samples ca). x = v"
  then show "calculate_entropy ca = 0" by (rule calculate_entropy_equal)
next
  assume a: "acked \<noteq> 0 \<and> 8 \<le> packets_acked ca + ucast acked
        \<and> (\<forall>x\<in>set (valid_samples (track_rtt (current_rtt_us tp) acked ca)). x = v)"
  let ?ca1 = "track_rtt (current_rtt_us tp) acked ca"
  from a have e0: "calculate_entropy ?ca1 = 0"
    by (intro calculate_entropy_equal [of _ v]) simp
  from a have "8 \<le> packets_acked ?ca1" by (simp add: track_rtt_other)
  then have b: "batch_update ?ca1 = ?ca1\<lparr>shannon_entropy := 0, packets_acked := 0,
      has_data := True, congestion_detected := True, loss_detected := False\<rparr>"
    by (simp add: batch_update_def e0 ENTROPY_THRESHOLD_def)
  from a show "let ca' = fst (ndm_tcp_cong_avoid tp ack acked ca)
    in shannon_entropy ca' = 0 \<and> congestion_detected ca' \<and> has_data ca' \<and> \<not> loss_detected ca'"
    by (simp add: fst_ndm_tcp_cong_avoid fst_ndm_forward_pass Let_def b)
qed

subsection \<open>The scoring network\<close>

lemma upt_0_8: "[0..<8] = [0, 1, 2, 3, 4, 5, 6, 7]"
  by (simp add: upt_rec)

lemma replicate_8: "replicate 8 x = [x, x, x, x, x, x, x, x]"
  by (simp add: numeral_eq_Suc)

lemma hidden_layer_first_ack:
  "hidden_layer [0, 0, 1000, 1000, - 200, 1000, 0, 0] (replicate 8 0)
     = [3516, 2921, 2386, 1899, 1465, 1076, 733, 436]"
  by (simp add: hidden_layer_def hidden_sum_def hidden_weight_def tanh_approx_def s32_def s16_def
        signed_divide_int_def Let_def HIDDEN_SIZE_def INPUT_SIZE_def upt_0_8 replicate_8)

lemma first_ack_tracked:
  "batch_update (track_rtt (current_rtt_us \<lparr>srtt_us = 80000, snd_cwnd = 10, snd_ssthresh = 100\<rparr>) 1
         (fst (ndm_tcp_init \<lparr>srtt_us = 80000, snd_cwnd = 10, snd_ssthresh = 100\<rparr>)))
   = \<lparr>min_rtt_us = 10000, prior_cwnd = 10, ssthresh = 100,
             rtt_history = (replicate 16 0)[0 := 10], history_index = 1,
             history_count = 1, hidden_state = replicate 8 0,
             shannon_entropy = 0, plasticity = 300, packets_acked = 1,
             has_data = False, in_slow_start = True,
             congestion_detected = False, loss_detected = False\<rparr>"
  by (simp add: batch_update_def track_rtt_def current_rtt_us_def ndm_tcp_init_def
        Let_def BASE_PLASTICITY_def ENTROPY_WINDOW_SIZE_def HIDDEN_SIZE_def word_le_def)

text \<open>
  C6.  The polynomial of \<open>tanh_approx\<close> leaves the range from -1000 to 1000: at 3000 it
  gives -6000, and the first acknowledgment after initialisation already stores the
  activations 3516, 2921, 2386, 1899, 1465 and 1076 in \<open>hidden_state\<close>.
\<close>

theorem tanh_out_of_range:
  "tanh_approx 3000 = - 6000
   \<and> map sint (hidden_state (fst (ndm_tcp_cong_avoid
         \<lparr>srtt_us = 80000, snd_cwnd = 10, snd_ssthresh = 100\<rparr> 0 1
         (fst (ndm_tcp_init \<lparr>srtt_us = 80000, snd_cwnd = 10, snd_ssthresh = 100\<rparr>)))))
       = [3516, 2921, 2386, 1899, 1465, 1076, 733, 436]"
proof
  show "tanh_approx 3000 = - 6000"
    by (simp add: tanh_approx_def s16_def signed_divide_int_def Let_def)
  have inp: "nn_inputs \<lparr>min_rtt_us = 10000, prior_cwnd = 10, ssthresh = 100,
             rtt_history = (replicate 16 0)[0 := 10], history_index = 1,
             history_count = 1, hidden_state = replicate 8 0,
             shannon_entropy = 0, plasticity = 300, packets_acked = 1,
             has_data = False, in_slow_start = True,
             congestion_detected = False, loss_detected = False\<rparr> 10000
     = [0, 0, 1000, 1000, - 200, 1000, 0, 0]"
    by (simp add: nn_inputs_def s32_def)
  have rtt: "current_rtt_us \<lparr>srtt_us = 80000, snd_cwnd = 10, snd_ssthresh = 100\<rparr> = 10000"
    by (simp add: current_rtt_us_def)
  have "hidden_state (fst (ndm_tcp_cong_avoid
         \<lparr>srtt_us = 80000, snd_cwnd = 10, snd_ssthresh = 100\<rparr> 0 1
         (fst (ndm_tcp_init \<lparr>srtt_us = 80000, snd_cwnd = 10, snd_ssthresh = 100\<rparr>))))
     = map word_of_int [3516, 2921, 2386, 1899, 1465, 1076, 733, 436]"
    by (simp add: fst_ndm_tcp_cong_avoid fst_ndm_forward_pass Let_def first_ack_tracked
          hidden_layer_first_ack) (simp add: rtt inp hidden_layer_first_ack)
  then show "map sint (hidden_state (fst (ndm_tcp_cong_avoid
         \<lparr>srtt_us = 80000, snd_cwnd = 10, snd_ssthresh = 100\<rparr> 0 1
         (fst (ndm_tcp_init \<lparr>srtt_us = 80000, snd_cwnd = 10, snd_ssthresh = 100\<rparr>)))))
       = [3516, 2921, 2386, 1899, 1465, 1076, 733, 436]"
    by simp
qed

subsection \<open>The tracker fields after an acknowledgment\<close>

lemma track_rtt_fields:
  "rtt_history (track_rtt r a ca) =
     (rtt_history ca)[unat (history_index ca) :=
        ucast (if min (r div 1000) 65535 = 0 then 1 else min (r div 1000) 65535)]"
  "history_index (track_rtt r a ca) = word_of_int ((uint (history_index ca) + 1) mod 16)"
  "history_count (track_rtt r a ca) =
     (if history_count ca < 16 then history_count ca + 1 else history_count ca)"
  by (simp_all add: track_rtt_def Let_def ENTROPY_WINDOW_SIZE_def)

lemma batch_update_fields:
  "rtt_history (batch_update ca) = rtt_history ca"
  "history_index (batch_update ca) = history_index ca"
  "history_count (batch_update ca) = history_count ca"
  "packets_acked (batch_update ca) = (if packets_acked ca \<ge> 8 then 0 else packets_acked ca)"
  by (simp_all add: batch_update_def Let_def)

lemma cong_avoid_fields:
  assumes "acked \<noteq> 0"
  shows "rtt_history (fst (ndm_tcp_cong_avoid tp ack acked ca))
           = rtt_history (track_rtt (current_rtt_us tp) acked ca)"
    and "history_index (fst (ndm_tcp_cong_avoid tp ack acked ca))
           = history_index (track_rtt (current_rtt_us tp) acked ca)"
    and "history_count (fst (ndm_tcp_cong_avoid tp ack acked ca))
           = history_count (track_rtt (current_rtt_us tp) acked ca)"
    and "packets_acked (fst (ndm_tcp_cong_avoid tp ack acked ca))
           = (if packets_acked ca + ucast acked \<ge> 8 then 0 else packets_acked ca + ucast acked)"
  using assms
  by (simp_all add: fst_ndm_tcp_cong_avoid fst_ndm_forward_pass Let_def batch_update_fields
        track_rtt_other)

lemma replicate_unfold:
  "replicate 7 x = [x, x, x, x, x, x, x]"
  "replicate 9 x = [x, x, x, x, x, x, x, x, x]"
  "replicate 16 x = [x, x, x, x, x, x, x, x, x, x, x, x, x, x, x, x]"
  by (simp_all add: numeral_eq_Suc)

text \<open>Eight acknowledgments of one packet each at 10 ms after initialisation: the eighth
  is the batch boundary and sees eight samples of 10.\<close>

theorem equal_samples_entropy_zero_witness:
  "valid_samples (track_rtt (current_rtt_us \<lparr>srtt_us = 80000, snd_cwnd = 10, snd_ssthresh = 100\<rparr>) 1
        (run \<lparr>srtt_us = 80000, snd_cwnd = 10, snd_ssthresh = 100\<rparr>
           (replicate 7 (On_ack \<lparr>srtt_us = 80000, snd_cwnd = 10, snd_ssthresh = 100\<rparr> 0 1))))
     = replicate 8 10
   \<and> (let ca' = fst (ndm_tcp_cong_avoid \<lparr>srtt_us = 80000, snd_cwnd = 10, snd_ssthresh = 100\<rparr> 0 1
          (run \<lparr>srtt_us = 80000, snd_cwnd = 10, snd_ssthresh = 100\<rparr>
             (replicate 7 (On_ack \<lparr>srtt_us = 80000, snd_cwnd = 10, snd_ssthresh = 100\<rparr> 0 1))))
       in shannon_entropy ca' = 0 \<and> congestion_detected ca' \<and> has_data ca' \<and> \<not> loss_detected ca')"
proof -
  let ?tp = "\<lparr>srtt_us = 80000, snd_cwnd = 10, snd_ssthresh = 100\<rparr>"
  let ?ca = "run ?tp (replicate 7 (On_ack ?tp 0 1))"
  have rtt: "current_rtt_us ?tp = 10000" by (simp add: current_rtt_us_def)
  have ix: "history_index ?ca = 7" and cnt: "history_count ?ca = 7" and pk: "packets_acked ?ca = 7"
    by (simp_all add: run_def replicate_unfold cong_avoid_fields track_rtt_fields ndm_tcp_init_def
          word_less_def word_le_def)
  have hist: "rtt_history ?ca = replicate 7 10 @ replicate 9 0"
    by (simp add: run_def replicate_unfold cong_avoid_fields track_rtt_fields ndm_tcp_init_def
          word_less_def word_le_def rtt ENTROPY_WINDOW_SIZE_def)
  have vs: "valid_samples (track_rtt (current_rtt_us ?tp) 1 ?ca) = replicate 8 10"
    by (simp only: valid_samples_def track_rtt_fields rtt ix cnt hist)
       (simp add: replicate_unfold replicate_8)
  have h: "(1 :: u32) \<noteq> 0 \<and> 8 \<le> packets_acked ?ca + ucast (1 :: u32)
        \<and> (\<forall>x\<in>set (valid_samples (track_rtt (current_rtt_us ?tp) 1 ?ca)). x = 10)"
    by (simp add: vs pk)
  from equal_samples_entropy_zero [THEN conjunct2, rule_format, OF h] h show ?thesis
    by (simp add: vs)
qed

section \<open>Properties of the optimized, ultra and hyper tiers\<close>

subsection \<open>The tracker fields after an acknowledgment (optimized tier)\<close>

lemma fst_ndm_forward_pass_opt:
  "fst (ndm_forward_pass_opt ca r) =
     ca\<lparr>hidden_state_o := map word_of_int (hidden_layer_opt (input_vec_opt ca r) (hidden_state_o ca))\<rparr>"
  by (simp add: ndm_forward_pass_opt_def Let_def)

lemma nn_or_cache_opt_frame:
  "rtt_history_o (fst (nn_or_cache_opt ca r)) = rtt_history_o ca"
  "history_index_o (fst (nn_or_cache_opt ca r)) = history_index_o ca"
  "history_count_o (fst (nn_or_cache_opt ca r)) = history_count_o ca"
  "packets_acked_o (fst (nn_or_cache_opt ca r)) = packets_acked_o ca"
  "shannon_entropy_o (fst (nn_or_cache_opt ca r)) = shannon_entropy_o ca"
  "plasticity_o (fst (nn_or_cache_opt ca r)) = plasticity_o ca"
  by (simp_all add: nn_or_cache_opt_def split_def Let_def fst_ndm_forward_pass_opt)

lemma flag_frame:
  "rtt_history_o (set_flag f ca) = rtt_history_o ca"
  "history_index_o (set_flag f ca) = history_index_o ca"
  "history_count_o (set_flag f ca) = history_count_o ca"
  "packets_acked_o (set_flag f ca) = packets_acked_o ca"
  "shannon_entropy_o (set_flag f ca) = shannon_entropy_o ca"
  "nn_skip_counter_o (set_flag f ca) = nn_skip_counter_o ca"
  "plasticity_o (set_flag f ca) = plasticity_o ca"
  "rtt_history_o (clear_flag f ca) = rtt_history_o ca"
  "history_index_o (clear_flag f ca) = history_index_o ca"
  "history_count_o (clear_flag f ca) = history_count_o ca"
  "packets_acked_o (clear_flag f ca) = packets_acked_o ca"
  "shannon_entropy_o (clear_flag f ca) = shannon_entropy_o ca"
  "nn_skip_counter_o (clear_flag f ca) = nn_skip_counter_o ca"
  "plasticity_o (clear_flag f ca) = plasticity_o ca"
  by (simp_all add: set_flag_def clear_flag_def)

lemma track_rtt_opt_fields:
  "rtt_history_o (track_rtt_opt r a ca) =
     (rtt_history_o ca)[unat (history_index_o ca) := ucast (min (r div 1000) 65535)]"
  "history_index_o (track_rtt_opt r a ca) = word_of_int ((uint (history_index_o ca) + 1) mod 8)"
  "history_count_o (track_rtt_opt r a ca) =
     (if history_count_o ca < 8 then history_count_o ca + 1 else history_count_o ca)"
  "packets_acked_o (track_rtt_opt r a ca) = packets_acked_o ca + ucast a"
  "shannon_entropy_o (track_rtt_opt r a ca) = shannon_entropy_o ca"
  "nn_skip_counter_o (track_rtt_opt r a ca) = nn_skip_counter_o ca"
  by (simp_all add: track_rtt_opt_def Let_def)

lemma batch_update_opt_fields:
  "rtt_history_o (batch_update_opt ca) = rtt_history_o ca"
  "history_index_o (batch_update_opt ca) = history_index_o ca"
  "history_count_o (batch_update_opt ca) = history_count_o ca"
  "packets_acked_o (batch_update_opt ca) = (if packets_acked_o ca \<ge> 16 then 0 else packets_acked_o ca)"
  "shannon_entropy_o (batch_update_opt ca) =
     (if packets_acked_o ca \<ge> 16 then ucast (calculate_entropy_fast ca) else shannon_entropy_o ca)"
  "nn_skip_counter_o (batch_update_opt ca) = nn_skip_counter_o ca"
  by (simp_all add: batch_update_opt_def Let_def flag_frame)

lemma fst_ndm_tcp_cong_avoid_opt:
  "acked \<noteq> 0 \<Longrightarrow>
   fst (ndm_tcp_cong_avoid_opt tp ack acked ca) =
     (let rtt_us = max (drop_bit 3 (srtt_us tp)) 1;
          ca1 = batch_update_opt (track_rtt_opt rtt_us acked ca);
          ca2 = (if snd_cwnd tp < ssthresh_o ca1
                 then set_flag FLAG_SLOW_START ca1 else clear_flag FLAG_SLOW_START ca1);
          ca3 = fst (nn_or_cache_opt ca2 rtt_us)
      in ca3\<lparr>plasticity_o := plasticity_decay_opt (plasticity_o ca3)\<rparr>)"
  by (simp add: ndm_tcp_cong_avoid_opt_def Let_def split: prod.splits)

lemma cong_avoid_opt_fields:
  assumes "acked \<noteq> 0"
  shows "rtt_history_o (fst (ndm_tcp_cong_avoid_opt tp ack acked ca))
           = rtt_history_o (track_rtt_opt (max (drop_bit 3 (srtt_us tp)) 1) acked ca)"
    and "history_index_o (fst (ndm_tcp_cong_avoid_opt tp ack acked ca))
           = history_index_o (track_rtt_opt (max (drop_bit 3 (srtt_us tp)) 1) acked ca)"
    and "history_count_o (fst (ndm_tcp_cong_avoid_opt tp ack acked ca))
           = history_count_o (track_rtt_opt (max (drop_bit 3 (srtt_us tp)) 1) acked ca)"
    and "packets_acked_o (fst (ndm_tcp_cong_avoid_opt tp ack acked ca))
           = (if packets_acked_o ca + ucast acked \<ge> 16 then 0 else packets_acked_o ca + ucast acked)"
    and "shannon_entropy_o (fst (ndm_tcp_cong_avoid_opt tp ack acked ca))
           = (if packets_acked_o ca + ucast acked \<ge> 16
              then ucast (calculate_entropy_fast (track_rtt_opt (max (drop_bit 3 (srtt_us tp)) 1) acked ca))
              else shannon_entropy_o ca)"
  using assms
  by (simp_all add: fst_ndm_tcp_cong_avoid_opt Let_def nn_or_cache_opt_frame flag_frame
        batch_update_opt_fields track_rtt_opt_fields)

subsection \<open>The table-driven entropy estimate\<close>

lemma entropy_fast_0_to_7:
  assumes "valid_samples_opt ca = [0, 1, 2, 3, 4, 5, 6, 7]"
  shows "calculate_entropy_fast ca = 3000"
proof -
  have mm: "fold minmax_step [0, 1, 2, 3, 4, 5, 6, 7] minmax_init_opt = (0, 7)"
    by (simp add: minmax_step_pair minmax_init_opt_def)
  have hist: "fold (hist_step_opt 0 65536) [0, 1, 2, 3, 4, 5, 6, 7] (replicate 8 0)
                = [1, 1, 1, 1, 1, 1, 1, 1]"
    by (simp add: hist_step_opt_def bin_of_opt_def Let_def replicate_8)
  have lut: "fold lut_step_opt [1, 1, 1, 1, 1, 1, 1, 1] 0 = 3000"
    by (simp add: lut_step_opt_def ENTROPY_LUT_def)
  have rng: "(7 :: u16) - 0 = 7" by simp
  have scale: "(458752 :: u32) div ucast (7 :: u16) = 65536" by simp
  show ?thesis
    by (simp only: calculate_entropy_fast_def assms mm Let_def prod.case rng scale hist lut) simp
qed


text \<open>
  C1.  The base tier clamps its estimate to 1000 (\<open>calculate_entropy_le\<close> above).  The
  optimized tier adds table entries without a clamp: after initialisation, eight
  acknowledgments of two packets each with smoothed RTTs of 0, 1, ..., 7 ms leave the
  samples 0 to 7 in the history, and the batch boundary at the eighth stores the entropy
  score 3000, above the tier's scale of 1024.
\<close>

theorem entropy_above_scale_opt:
  "shannon_entropy_o
     (run_opt \<lparr>srtt_us = 0, snd_cwnd = 10, snd_ssthresh = 100\<rparr>
        (map (\<lambda>k. On_ack \<lparr>srtt_us = 8000 * k, snd_cwnd = 10, snd_ssthresh = 100\<rparr> 0 2) [0, 1, 2, 3, 4, 5, 6, 7])) = 3000
   \<and> rtt_history_o
     (run_opt \<lparr>srtt_us = 0, snd_cwnd = 10, snd_ssthresh = 100\<rparr>
        (map (\<lambda>k. On_ack \<lparr>srtt_us = 8000 * k, snd_cwnd = 10, snd_ssthresh = 100\<rparr> 0 2) [0, 1, 2, 3, 4, 5, 6, 7])) = [0, 1, 2, 3, 4, 5, 6, 7]
   \<and> \<not> shannon_entropy_o
     (run_opt \<lparr>srtt_us = 0, snd_cwnd = 10, snd_ssthresh = 100\<rparr>
        (map (\<lambda>k. On_ack \<lparr>srtt_us = 8000 * k, snd_cwnd = 10, snd_ssthresh = 100\<rparr> 0 2) [0, 1, 2, 3, 4, 5, 6, 7])) \<le> 1024"
proof -
  let ?S7 = "run_opt \<lparr>srtt_us = 0, snd_cwnd = 10, snd_ssthresh = 100\<rparr>
        (map (\<lambda>k. On_ack \<lparr>srtt_us = 8000 * k, snd_cwnd = 10, snd_ssthresh = 100\<rparr> 0 2) [0, 1, 2, 3, 4, 5, 6])"
  let ?tp7 = "\<lparr>srtt_us = 56000, snd_cwnd = 10, snd_ssthresh = 100\<rparr>"
  have ix: "history_index_o ?S7 = 7" and cnt: "history_count_o ?S7 = 7"
    and pk: "packets_acked_o ?S7 = 14"
    by (simp_all add: run_opt_def cong_avoid_opt_fields track_rtt_opt_fields ndm_tcp_init_opt_def
          word_less_def word_le_def)
  have hist: "rtt_history_o ?S7 = [0, 1, 2, 3, 4, 5, 6, 0]"
    by (simp add: run_opt_def cong_avoid_opt_fields track_rtt_opt_fields ndm_tcp_init_opt_def
          word_less_def word_le_def replicate_8)
  have hist8: "rtt_history_o (track_rtt_opt (max (drop_bit 3 (srtt_us ?tp7)) 1) 2 ?S7)
                 = [0, 1, 2, 3, 4, 5, 6, 7]"
    by (simp only: track_rtt_opt_fields ix hist) simp
  have cnt8: "history_count_o (track_rtt_opt (max (drop_bit 3 (srtt_us ?tp7)) 1) 2 ?S7) = 8"
    by (simp only: track_rtt_opt_fields cnt) simp
  have vs: "valid_samples_opt (track_rtt_opt (max (drop_bit 3 (srtt_us ?tp7)) 1) 2 ?S7)
              = [0, 1, 2, 3, 4, 5, 6, 7]"
    by (simp only: valid_samples_opt_def hist8 cnt8) simp
  have step: "run_opt \<lparr>srtt_us = 0, snd_cwnd = 10, snd_ssthresh = 100\<rparr>
        (map (\<lambda>k. On_ack \<lparr>srtt_us = 8000 * k, snd_cwnd = 10, snd_ssthresh = 100\<rparr> 0 2) [0, 1, 2, 3, 4, 5, 6, 7]) = fst (ndm_tcp_cong_avoid_opt ?tp7 0 2 ?S7)"
    by (simp add: run_opt_def)
  have nz: "(2 :: u32) \<noteq> 0" by simp
  have e: "shannon_entropy_o (fst (ndm_tcp_cong_avoid_opt ?tp7 0 2 ?S7)) = 3000"
    by (simp only: cong_avoid_opt_fields [OF nz] pk entropy_fast_0_to_7 [OF vs]) simp
  have h: "rtt_history_o (fst (ndm_tcp_cong_avoid_opt ?tp7 0 2 ?S7)) = [0, 1, 2, 3, 4, 5, 6, 7]"
    by (simp only: cong_avoid_opt_fields [OF nz] hist8)
  show ?thesis
    by (simp only: step e h) simp
qed

text \<open>The ultra tier adds its table entries in a \<open>u8\<close>: for the same samples the
  sum 8 * 47 = 376 is stored as 120.\<close>

lemma entropy_u8_wraps:
  assumes "rtt_history_u cu = [0, 1, 2, 3, 4, 5, 6, 7]"
  shows "calculate_entropy_fast_u8 cu = 120"
proof -
  have mm: "fold minmax_step_ultra [0, 1, 2, 3, 4, 5, 6, 7] (255, 0) = (0, 7)"
    by (simp add: minmax_step_ultra_def)
  have sh: "bin_shift_ultra 7 = 0"
    by (simp add: bin_shift_ultra_def)
  have hist: "fold (hist_step_ultra 0 0) [0, 1, 2, 3, 4, 5, 6, 7] (replicate 8 0)
                = [1, 1, 1, 1, 1, 1, 1, 1]"
    by (simp add: hist_step_ultra_def Let_def replicate_8)
  have lut: "fold lut_step_ultra [1, 1, 1, 1, 1, 1, 1, 1] 0 = 120"
    by (simp add: lut_step_ultra_def ENTROPY_LUT_ultra_def)
  have rng: "(7 :: u8) - 0 = 7" by simp
  have tk: "take 8 [0, 1, 2, 3, 4, 5, 6, 7 :: u8] = [0, 1, 2, 3, 4, 5, 6, 7]" by simp
  show ?thesis
    by (simp only: calculate_entropy_fast_u8_def assms tk mm Let_def prod.case rng sh hist lut) simp
qed

subsection \<open>Compute elision\<close>

lemma fst_ndm_forward_pass_int8:
  "fst (ndm_forward_pass_int8 ca r) =
     ca\<lparr>hidden_state_u := map word_of_int (hidden_layer_ultra (input_vec_ultra ca r) (hidden_state_u ca))\<rparr>"
  by (simp add: ndm_forward_pass_int8_def Let_def)

lemma skip_nn_or_cache_opt:
  "nn_skip_counter_o ca \<le> 8 \<Longrightarrow> nn_skip_counter_o (fst (nn_or_cache_opt ca r)) \<le> 8"
  by (auto simp: nn_or_cache_opt_def split_def Let_def intro: inc_le)

lemma skip_cong_avoid_opt:
  assumes "nn_skip_counter_o ca \<le> 8"
  shows "nn_skip_counter_o (fst (ndm_tcp_cong_avoid_opt tp ack acked ca)) \<le> 8"
proof (cases "acked = 0")
  case True
  with assms show ?thesis by (simp add: ndm_tcp_cong_avoid_opt_def)
next
  case False
  then show ?thesis
    using assms
    by (simp add: fst_ndm_tcp_cong_avoid_opt Let_def)
       (auto intro!: skip_nn_or_cache_opt simp: flag_frame batch_update_opt_fields track_rtt_opt_fields)
qed

lemma skip_dispatch_opt:
  "nn_skip_counter_o ca \<le> 8 \<Longrightarrow> nn_skip_counter_o (dispatch_opt ev ca) \<le> 8"
proof (cases ev)
  case (On_ack tp ack acked)
  then show "nn_skip_counter_o ca \<le> 8 \<Longrightarrow> ?thesis" by (simp add: skip_cong_avoid_opt)
next
  case (On_cwnd_event e)
  then show "nn_skip_counter_o ca \<le> 8 \<Longrightarrow> ?thesis"
    by (cases e) (simp_all add: ndm_tcp_cwnd_event_opt_def flag_frame)
qed (simp_all add: ndm_tcp_ssthresh_opt_def ndm_tcp_undo_cwnd_opt_def ndm_tcp_set_state_opt_def
       Let_def flag_frame)

lemma skip_run_opt: "nn_skip_counter_o (run_opt tp0 evs) \<le> 8"
proof -
  have "nn_skip_counter_o ca \<le> 8 \<Longrightarrow> nn_skip_counter_o (fold dispatch_opt evs ca) \<le> 8" for ca
    by (induction evs arbitrary: ca) (simp_all add: skip_dispatch_opt)
  then show ?thesis
    by (simp add: run_opt_def ndm_tcp_init_opt_def)
qed


lemma flag_frame_ultra:
  "nn_skip_counter_u (set_flag_ultra f ca) = nn_skip_counter_u ca"
  "nn_skip_counter_u (clear_flag_ultra f ca) = nn_skip_counter_u ca"
  by (simp_all add: set_flag_ultra_def clear_flag_ultra_def)

lemma skip_before_network_ultra:
  "nn_skip_counter_u (track_rtt_ultra r a ca) = nn_skip_counter_u ca"
  "nn_skip_counter_u (batch_update_ultra ca) = nn_skip_counter_u ca"
  by (simp_all add: track_rtt_ultra_def batch_update_ultra_def Let_def flag_frame_ultra)

lemma skip_nn_or_cache_ultra:
  "nn_skip_counter_u ca \<le> 16 \<Longrightarrow> nn_skip_counter_u (fst (nn_or_cache_ultra ca r)) \<le> 16"
  by (auto simp: nn_or_cache_ultra_def split_def Let_def intro: inc_le)

lemma skip_cong_avoid_ultra:
  assumes "nn_skip_counter_u ca \<le> 16"
  shows "nn_skip_counter_u (fst (ndm_tcp_cong_avoid_ultra tp ack acked ca)) \<le> 16"
proof (cases "acked = 0")
  case True
  with assms show ?thesis by (simp add: ndm_tcp_cong_avoid_ultra_def)
next
  case False
  let ?r = "max (drop_bit 3 (srtt_us tp)) 1"
  let ?ca1 = "batch_update_ultra (track_rtt_ultra ?r acked ca)"
  let ?ca2 = "if snd_cwnd tp < ssthresh_u ?ca1
              then set_flag_ultra FLAG_SLOW_START ?ca1 else clear_flag_ultra FLAG_SLOW_START ?ca1"
  have "nn_skip_counter_u ?ca2 \<le> 16"
    using assms by (simp add: flag_frame_ultra skip_before_network_ultra)
  then have "nn_skip_counter_u (fst (nn_or_cache_ultra ?ca2 ?r)) \<le> 16"
    by (rule skip_nn_or_cache_ultra)
  with False show ?thesis
    by (simp add: ndm_tcp_cong_avoid_ultra_def Let_def split_def)
qed

lemma skip_dispatch_ultra:
  "nn_skip_counter_u ca \<le> 16 \<Longrightarrow> nn_skip_counter_u (dispatch_ultra ev ca) \<le> 16"
proof (cases ev)
  case (On_ack tp ack acked)
  then show "nn_skip_counter_u ca \<le> 16 \<Longrightarrow> ?thesis" by (simp add: skip_cong_avoid_ultra)
next
  case (On_cwnd_event e)
  then show "nn_skip_counter_u ca \<le> 16 \<Longrightarrow> ?thesis"
    by (cases e) (simp_all add: ndm_tcp_cwnd_event_ultra_def flag_frame_ultra)
qed (simp_all add: ndm_tcp_ssthresh_ultra_def ndm_tcp_undo_cwnd_ultra_def
       ndm_tcp_set_state_ultra_def Let_def flag_frame_ultra)

lemma skip_run_ultra: "nn_skip_counter_u (run_ultra tp0 evs) \<le> 16"
proof -
  have "nn_skip_counter_u ca \<le> 16 \<Longrightarrow> nn_skip_counter_u (fold dispatch_ultra evs ca) \<le> 16" for ca
    by (induction evs arbitrary: ca) (simp_all add: skip_dispatch_ultra)
  then show ?thesis
    by (simp add: run_ultra_def ndm_tcp_init_ultra_def)
qed

lemma unat_inc_u8:
  assumes "(x :: u8) < y"
  shows "unat (x + 1) = Suc (unat x)"
proof -
  from assms have "unat x < unat y" by (simp add: word_less_nat_alt)
  moreover have "unat y < 256" using unsigned_less [of y] by simp
  ultimately have "unat x + unat (1 :: u8) < 2 ^ LENGTH(8)" by simp
  then have "unat (x + 1) = unat x + unat (1 :: u8)"
    by (simp only: unat_add_lem [THEN iffD1])
  then show ?thesis by simp
qed

lemma flags_nn_or_cache_opt: "flags_o (fst (nn_or_cache_opt ca r)) = flags_o ca"
  by (simp add: nn_or_cache_opt_def split_def Let_def fst_ndm_forward_pass_opt)

lemma growth_call_opt_flags:
  "flags_o ca = flags_o cb \<Longrightarrow>
   growth_call_opt ca tp ack acked d = growth_call_opt cb tp ack acked d"
  by (simp add: growth_call_opt_def check_flag_def)

lemma snd_ndm_tcp_cong_avoid_opt:
  "acked \<noteq> 0 \<Longrightarrow>
   snd (ndm_tcp_cong_avoid_opt tp ack acked ca) =
     (let rtt_us = max (drop_bit 3 (srtt_us tp)) 1;
          ca1 = batch_update_opt (track_rtt_opt rtt_us acked ca);
          ca2 = (if snd_cwnd tp < ssthresh_o ca1
                 then set_flag FLAG_SLOW_START ca1 else clear_flag FLAG_SLOW_START ca1)
      in Some (growth_call_opt ca2 tp ack acked (snd (nn_or_cache_opt ca2 rtt_us))))"
  by (simp add: ndm_tcp_cong_avoid_opt_def Let_def split_def
        growth_call_opt_flags [OF flags_nn_or_cache_opt])

lemma nn_or_cache_opt_skip:
  assumes "shannon_entropy_o ca < 500 \<and> plasticity_o ca > 800 \<and> nn_skip_counter_o ca < 8"
  shows "nn_or_cache_opt ca r
           = (ca\<lparr>nn_skip_counter_o := nn_skip_counter_o ca + 1\<rparr>, cached_cwnd_delta_o ca)"
  using assms by (simp add: nn_or_cache_opt_def)

lemma nn_or_cache_opt_run:
  assumes "\<not> (shannon_entropy_o ca < 500 \<and> plasticity_o ca > 800 \<and> nn_skip_counter_o ca < 8)"
  shows "nn_or_cache_opt ca r
           = ((fst (ndm_forward_pass_opt ca r))
                 \<lparr>cached_cwnd_delta_o := snd (ndm_forward_pass_opt ca r), nn_skip_counter_o := 0\<rparr>,
              snd (ndm_forward_pass_opt ca r))"
  using assms by (auto simp: nn_or_cache_opt_def split_def Let_def)

lemma before_network_opt:
  "plasticity_o (if c then set_flag f (batch_update_opt (track_rtt_opt r a ca))
                 else clear_flag f (batch_update_opt (track_rtt_opt r a ca))) = plasticity_o ca"
  "nn_skip_counter_o (if c then set_flag f (batch_update_opt (track_rtt_opt r a ca))
                 else clear_flag f (batch_update_opt (track_rtt_opt r a ca))) = nn_skip_counter_o ca"
  "cached_cwnd_delta_o (if c then set_flag f (batch_update_opt (track_rtt_opt r a ca))
                 else clear_flag f (batch_update_opt (track_rtt_opt r a ca))) = cached_cwnd_delta_o ca"
  "hidden_state_o (if c then set_flag f (batch_update_opt (track_rtt_opt r a ca))
                 else clear_flag f (batch_update_opt (track_rtt_opt r a ca))) = hidden_state_o ca"
  "shannon_entropy_o (if c then set_flag f (batch_update_opt (track_rtt_opt r a ca))
                 else clear_flag f (batch_update_opt (track_rtt_opt r a ca)))
     = shannon_entropy_o (batch_update_opt (track_rtt_opt r a ca))"
  by (simp_all add: set_flag_def clear_flag_def batch_update_opt_def track_rtt_opt_def Let_def)

lemma cong_avoid_opt_elision:
  assumes nz: "acked \<noteq> 0"
  shows
  "let rtt_us = max (drop_bit 3 (srtt_us tp)) 1;
       ca1 = batch_update_opt (track_rtt_opt rtt_us acked ca);
       ca2 = (if snd_cwnd tp < ssthresh_o ca1
              then set_flag FLAG_SLOW_START ca1 else clear_flag FLAG_SLOW_START ca1);
       (ca', call) = ndm_tcp_cong_avoid_opt tp ack acked ca
   in (shannon_entropy_o ca1 < 500 \<and> plasticity_o ca > 800 \<and> nn_skip_counter_o ca < 8
         \<longrightarrow> cached_cwnd_delta_o ca' = cached_cwnd_delta_o ca
             \<and> hidden_state_o ca' = hidden_state_o ca
             \<and> unat (nn_skip_counter_o ca') = unat (nn_skip_counter_o ca) + 1
             \<and> call = Some (growth_call_opt ca2 tp ack acked (cached_cwnd_delta_o ca)))
      \<and> (\<not> (shannon_entropy_o ca1 < 500 \<and> plasticity_o ca > 800 \<and> nn_skip_counter_o ca < 8)
         \<longrightarrow> nn_skip_counter_o ca' = 0
             \<and> cached_cwnd_delta_o ca' = snd (ndm_forward_pass_opt ca2 rtt_us)
             \<and> hidden_state_o ca' = hidden_state_o (fst (ndm_forward_pass_opt ca2 rtt_us))
             \<and> call = Some (growth_call_opt ca2 tp ack acked
                               (snd (ndm_forward_pass_opt ca2 rtt_us))))"
proof -
  let ?r = "max (drop_bit 3 (srtt_us tp)) 1"
  let ?ca1 = "batch_update_opt (track_rtt_opt ?r acked ca)"
  let ?ca2 = "if snd_cwnd tp < ssthresh_o ?ca1
              then set_flag FLAG_SLOW_START ?ca1 else clear_flag FLAG_SLOW_START ?ca1"
  let ?c = "shannon_entropy_o ?ca1 < 500 \<and> plasticity_o ca > 800 \<and> nn_skip_counter_o ca < 8"
  have c2: "(shannon_entropy_o ?ca2 < 500 \<and> plasticity_o ?ca2 > 800
             \<and> nn_skip_counter_o ?ca2 < 8) = ?c"
    by (simp only: before_network_opt)
  have f: "fst (ndm_tcp_cong_avoid_opt tp ack acked ca)
             = (fst (nn_or_cache_opt ?ca2 ?r))
                 \<lparr>plasticity_o := plasticity_decay_opt (plasticity_o (fst (nn_or_cache_opt ?ca2 ?r)))\<rparr>"
    using nz by (simp add: fst_ndm_tcp_cong_avoid_opt Let_def)
  have s: "snd (ndm_tcp_cong_avoid_opt tp ack acked ca)
             = Some (growth_call_opt ?ca2 tp ack acked (snd (nn_or_cache_opt ?ca2 ?r)))"
    using nz by (simp add: snd_ndm_tcp_cong_avoid_opt Let_def)
  show ?thesis
  proof (cases ?c)
    case True
    then have "shannon_entropy_o ?ca2 < 500 \<and> plasticity_o ?ca2 > 800
               \<and> nn_skip_counter_o ?ca2 < 8"
      using c2 by blast
    from nn_or_cache_opt_skip [OF this, of ?r]
    have n: "nn_or_cache_opt ?ca2 ?r
               = (?ca2\<lparr>nn_skip_counter_o := nn_skip_counter_o ?ca2 + 1\<rparr>, cached_cwnd_delta_o ?ca2)" .
    from True have "unat (nn_skip_counter_o ca + 1) = Suc (unat (nn_skip_counter_o ca))"
      by (intro unat_inc_u8 [of _ 8]) simp
    with True show ?thesis
      unfolding Let_def split_def f s n
      by (simp add: before_network_opt)
  next
    case False
    then have "\<not> (shannon_entropy_o ?ca2 < 500 \<and> plasticity_o ?ca2 > 800
               \<and> nn_skip_counter_o ?ca2 < 8)"
      using c2 by blast
    from nn_or_cache_opt_run [OF this, of ?r]
    have n: "nn_or_cache_opt ?ca2 ?r
           = ((fst (ndm_forward_pass_opt ?ca2 ?r))
                 \<lparr>cached_cwnd_delta_o := snd (ndm_forward_pass_opt ?ca2 ?r), nn_skip_counter_o := 0\<rparr>,
              snd (ndm_forward_pass_opt ?ca2 ?r))" .
    from False show ?thesis
      unfolding Let_def split_def f s n
      by simp
  qed
qed


lemma flags_nn_or_cache_ultra: "flags_u (fst (nn_or_cache_ultra cu r)) = flags_u cu"
  by (simp add: nn_or_cache_ultra_def split_def Let_def fst_ndm_forward_pass_int8)

lemma growth_call_ultra_flags:
  "flags_u ca = flags_u cb \<Longrightarrow>
   growth_call_ultra ca tp ack acked d = growth_call_ultra cb tp ack acked d"
  by (simp add: growth_call_ultra_def check_flag_ultra_def)

lemma nn_or_cache_ultra_skip:
  assumes "shannon_entropy_u cu < 128 \<and> plasticity_u cu > 200 \<and> nn_skip_counter_u cu < 16"
  shows "nn_or_cache_ultra cu r
           = (cu\<lparr>nn_skip_counter_u := nn_skip_counter_u cu + 1\<rparr>, cached_cwnd_delta_u cu)"
  using assms by (simp add: nn_or_cache_ultra_def)

lemma nn_or_cache_ultra_run:
  assumes "\<not> (shannon_entropy_u cu < 128 \<and> plasticity_u cu > 200 \<and> nn_skip_counter_u cu < 16)"
  shows "nn_or_cache_ultra cu r
           = ((fst (ndm_forward_pass_int8 cu r))
                 \<lparr>cached_cwnd_delta_u := snd (ndm_forward_pass_int8 cu r), nn_skip_counter_u := 0\<rparr>,
              snd (ndm_forward_pass_int8 cu r))"
  using assms by (auto simp: nn_or_cache_ultra_def split_def Let_def)

lemma before_network_ultra:
  "plasticity_u (if c then set_flag_ultra f (batch_update_ultra (track_rtt_ultra r a cu))
                 else clear_flag_ultra f (batch_update_ultra (track_rtt_ultra r a cu))) = plasticity_u cu"
  "nn_skip_counter_u (if c then set_flag_ultra f (batch_update_ultra (track_rtt_ultra r a cu))
                 else clear_flag_ultra f (batch_update_ultra (track_rtt_ultra r a cu)))
     = nn_skip_counter_u cu"
  "cached_cwnd_delta_u (if c then set_flag_ultra f (batch_update_ultra (track_rtt_ultra r a cu))
                 else clear_flag_ultra f (batch_update_ultra (track_rtt_ultra r a cu)))
     = cached_cwnd_delta_u cu"
  "hidden_state_u (if c then set_flag_ultra f (batch_update_ultra (track_rtt_ultra r a cu))
                 else clear_flag_ultra f (batch_update_ultra (track_rtt_ultra r a cu)))
     = hidden_state_u cu"
  "shannon_entropy_u (if c then set_flag_ultra f (batch_update_ultra (track_rtt_ultra r a cu))
                 else clear_flag_ultra f (batch_update_ultra (track_rtt_ultra r a cu)))
     = shannon_entropy_u (batch_update_ultra (track_rtt_ultra r a cu))"
  by (simp_all add: set_flag_ultra_def clear_flag_ultra_def batch_update_ultra_def
        track_rtt_ultra_def Let_def)

lemma cong_avoid_ultra_elision:
  assumes nz: "acked \<noteq> 0"
  shows "(let rtt_us = max (drop_bit 3 (srtt_us tp)) 1;
          cu1 = batch_update_ultra (track_rtt_ultra rtt_us acked cu);
          cu2 = (if snd_cwnd tp < ssthresh_u cu1
                 then set_flag_ultra FLAG_SLOW_START cu1 else clear_flag_ultra FLAG_SLOW_START cu1);
          (cu', call) = ndm_tcp_cong_avoid_ultra tp ack acked cu
      in (shannon_entropy_u cu1 < 128 \<and> plasticity_u cu > 200 \<and> nn_skip_counter_u cu < 16
            \<longrightarrow> cached_cwnd_delta_u cu' = cached_cwnd_delta_u cu
                \<and> hidden_state_u cu' = hidden_state_u cu
                \<and> unat (nn_skip_counter_u cu') = unat (nn_skip_counter_u cu) + 1
                \<and> call = Some (growth_call_ultra cu2 tp ack acked (cached_cwnd_delta_u cu)))
         \<and> (\<not> (shannon_entropy_u cu1 < 128 \<and> plasticity_u cu > 200 \<and> nn_skip_counter_u cu < 16)
            \<longrightarrow> nn_skip_counter_u cu' = 0
                \<and> cached_cwnd_delta_u cu' = snd (ndm_forward_pass_int8 cu2 rtt_us)
                \<and> hidden_state_u cu' = hidden_state_u (fst (ndm_forward_pass_int8 cu2 rtt_us))
                \<and> call = Some (growth_call_ultra cu2 tp ack acked
                                  (snd (ndm_forward_pass_int8 cu2 rtt_us)))))"
proof -
  let ?r = "max (drop_bit 3 (srtt_us tp)) 1"
  let ?cu1 = "batch_update_ultra (track_rtt_ultra ?r acked cu)"
  let ?cu2 = "if snd_cwnd tp < ssthresh_u ?cu1
              then set_flag_ultra FLAG_SLOW_START ?cu1 else clear_flag_ultra FLAG_SLOW_START ?cu1"
  let ?c = "shannon_entropy_u ?cu1 < 128 \<and> plasticity_u cu > 200 \<and> nn_skip_counter_u cu < 16"
  let ?n = "fst (nn_or_cache_ultra ?cu2 ?r)"
  have c2: "(shannon_entropy_u ?cu2 < 128 \<and> plasticity_u ?cu2 > 200
             \<and> nn_skip_counter_u ?cu2 < 16) = ?c"
    by (simp only: before_network_ultra)
  have f: "fst (ndm_tcp_cong_avoid_ultra tp ack acked cu)
             = (if plasticity_u ?n > 25 then ?n\<lparr>plasticity_u := plasticity_u ?n - 1\<rparr> else ?n)"
    using nz by (simp add: ndm_tcp_cong_avoid_ultra_def Let_def split_def)
  have s: "snd (ndm_tcp_cong_avoid_ultra tp ack acked cu)
             = Some (growth_call_ultra ?cu2 tp ack acked (snd (nn_or_cache_ultra ?cu2 ?r)))"
    using nz
    by (simp add: ndm_tcp_cong_avoid_ultra_def Let_def split_def
          growth_call_ultra_flags [OF flags_nn_or_cache_ultra])
  show ?thesis
  proof (cases ?c)
    case True
    then have "shannon_entropy_u ?cu2 < 128 \<and> plasticity_u ?cu2 > 200
               \<and> nn_skip_counter_u ?cu2 < 16"
      using c2 by blast
    from nn_or_cache_ultra_skip [OF this, of ?r]
    have n: "nn_or_cache_ultra ?cu2 ?r
               = (?cu2\<lparr>nn_skip_counter_u := nn_skip_counter_u ?cu2 + 1\<rparr>, cached_cwnd_delta_u ?cu2)" .
    from True have "unat (nn_skip_counter_u cu + 1) = Suc (unat (nn_skip_counter_u cu))"
      by (intro unat_inc_u8 [of _ 16]) simp
    with True show ?thesis
      unfolding Let_def split_def f s n
      by (simp add: before_network_ultra)
  next
    case False
    then have "\<not> (shannon_entropy_u ?cu2 < 128 \<and> plasticity_u ?cu2 > 200
               \<and> nn_skip_counter_u ?cu2 < 16)"
      using c2 by blast
    from nn_or_cache_ultra_run [OF this, of ?r]
    have n: "nn_or_cache_ultra ?cu2 ?r
           = ((fst (ndm_forward_pass_int8 ?cu2 ?r))
                 \<lparr>cached_cwnd_delta_u := snd (ndm_forward_pass_int8 ?cu2 ?r), nn_skip_counter_u := 0\<rparr>,
              snd (ndm_forward_pass_int8 ?cu2 ?r))" .
    from False show ?thesis
      unfolding Let_def split_def f s n
      by simp
  qed
qed

text \<open>
  C9.  In the optimized tier (bound 8) and the ultra tier (bound 16), for every
  acknowledgment of at least one packet.  The elision condition is tested after the
  callback's batch update, on the entropy score as it then stands.  When that score is
  low, plasticity is above the stability threshold and the skip counter is below its
  bound, the callback leaves the cache and the hidden state as they were, passes the
  cached growth signal to the growth decision and increments the skip counter by one.
  Otherwise it runs the network on the state as updated so far, sets the skip counter to
  0, stores the growth signal just computed in the cache and passes it to the growth
  decision.  The skip counter of a reachable state never exceeds the bound.
\<close>

theorem compute_elision:
  "(acked \<noteq> 0 \<longrightarrow>
     (let rtt_us = max (drop_bit 3 (srtt_us tp)) 1;
          ca1 = batch_update_opt (track_rtt_opt rtt_us acked ca);
          ca2 = (if snd_cwnd tp < ssthresh_o ca1
                 then set_flag FLAG_SLOW_START ca1 else clear_flag FLAG_SLOW_START ca1);
          (ca', call) = ndm_tcp_cong_avoid_opt tp ack acked ca
      in (shannon_entropy_o ca1 < 500 \<and> plasticity_o ca > 800 \<and> nn_skip_counter_o ca < 8
            \<longrightarrow> cached_cwnd_delta_o ca' = cached_cwnd_delta_o ca
                \<and> hidden_state_o ca' = hidden_state_o ca
                \<and> unat (nn_skip_counter_o ca') = unat (nn_skip_counter_o ca) + 1
                \<and> call = Some (growth_call_opt ca2 tp ack acked (cached_cwnd_delta_o ca)))
         \<and> (\<not> (shannon_entropy_o ca1 < 500 \<and> plasticity_o ca > 800 \<and> nn_skip_counter_o ca < 8)
            \<longrightarrow> nn_skip_counter_o ca' = 0
                \<and> cached_cwnd_delta_o ca' = snd (ndm_forward_pass_opt ca2 rtt_us)
                \<and> hidden_state_o ca' = hidden_state_o (fst (ndm_forward_pass_opt ca2 rtt_us))
                \<and> call = Some (growth_call_opt ca2 tp ack acked
                                  (snd (ndm_forward_pass_opt ca2 rtt_us))))))
   \<and> nn_skip_counter_o (run_opt tp0 evs) \<le> 8
   \<and> (acked \<noteq> 0 \<longrightarrow>
     (let rtt_us = max (drop_bit 3 (srtt_us tp)) 1;
          cu1 = batch_update_ultra (track_rtt_ultra rtt_us acked cu);
          cu2 = (if snd_cwnd tp < ssthresh_u cu1
                 then set_flag_ultra FLAG_SLOW_START cu1 else clear_flag_ultra FLAG_SLOW_START cu1);
          (cu', call) = ndm_tcp_cong_avoid_ultra tp ack acked cu
      in (shannon_entropy_u cu1 < 128 \<and> plasticity_u cu > 200 \<and> nn_skip_counter_u cu < 16
            \<longrightarrow> cached_cwnd_delta_u cu' = cached_cwnd_delta_u cu
                \<and> hidden_state_u cu' = hidden_state_u cu
                \<and> unat (nn_skip_counter_u cu') = unat (nn_skip_counter_u cu) + 1
                \<and> call = Some (growth_call_ultra cu2 tp ack acked (cached_cwnd_delta_u cu)))
         \<and> (\<not> (shannon_entropy_u cu1 < 128 \<and> plasticity_u cu > 200 \<and> nn_skip_counter_u cu < 16)
            \<longrightarrow> nn_skip_counter_u cu' = 0
                \<and> cached_cwnd_delta_u cu' = snd (ndm_forward_pass_int8 cu2 rtt_us)
                \<and> hidden_state_u cu' = hidden_state_u (fst (ndm_forward_pass_int8 cu2 rtt_us))
                \<and> call = Some (growth_call_ultra cu2 tp ack acked
                                  (snd (ndm_forward_pass_int8 cu2 rtt_us))))))
   \<and> nn_skip_counter_u (run_ultra tp0 evs) \<le> 16"
  using cong_avoid_opt_elision [of acked tp ca ack] cong_avoid_ultra_elision [of acked tp cu ack]
    skip_run_opt [of tp0 evs] skip_run_ultra [of tp0 evs]
  by blast

lemma cong_avoid_opt_plasticity_skip:
  assumes "acked \<noteq> 0"
  shows "plasticity_o (fst (ndm_tcp_cong_avoid_opt tp ack acked ca))
           = plasticity_decay_opt (plasticity_o ca)"
    and "nn_skip_counter_o (fst (ndm_tcp_cong_avoid_opt tp ack acked ca))
           = (if shannon_entropy_o (fst (ndm_tcp_cong_avoid_opt tp ack acked ca)) < 500
                 \<and> plasticity_o ca > 800 \<and> nn_skip_counter_o ca < 8
              then nn_skip_counter_o ca + 1 else 0)"
proof -
  let ?r = "max (drop_bit 3 (srtt_us tp)) 1"
  let ?ca1 = "batch_update_opt (track_rtt_opt ?r acked ca)"
  let ?ca2 = "if snd_cwnd tp < ssthresh_o ?ca1
              then set_flag FLAG_SLOW_START ?ca1 else clear_flag FLAG_SLOW_START ?ca1"
  have f: "fst (ndm_tcp_cong_avoid_opt tp ack acked ca)
             = (fst (nn_or_cache_opt ?ca2 ?r))
                 \<lparr>plasticity_o := plasticity_decay_opt (plasticity_o (fst (nn_or_cache_opt ?ca2 ?r)))\<rparr>"
    using assms by (simp add: fst_ndm_tcp_cong_avoid_opt Let_def)
  show "plasticity_o (fst (ndm_tcp_cong_avoid_opt tp ack acked ca))
           = plasticity_decay_opt (plasticity_o ca)"
    unfolding f by (simp add: nn_or_cache_opt_frame before_network_opt)
  have e: "shannon_entropy_o (fst (ndm_tcp_cong_avoid_opt tp ack acked ca)) = shannon_entropy_o ?ca2"
    unfolding f by (simp add: nn_or_cache_opt_frame)
  have "nn_skip_counter_o (fst (nn_or_cache_opt ?ca2 ?r))
          = (if shannon_entropy_o ?ca2 < 500 \<and> plasticity_o ?ca2 > 800 \<and> nn_skip_counter_o ?ca2 < 8
             then nn_skip_counter_o ?ca2 + 1 else 0)"
    by (simp add: nn_or_cache_opt_def split_def Let_def)
  then show "nn_skip_counter_o (fst (ndm_tcp_cong_avoid_opt tp ack acked ca))
           = (if shannon_entropy_o (fst (ndm_tcp_cong_avoid_opt tp ack acked ca)) < 500
                 \<and> plasticity_o ca > 800 \<and> nn_skip_counter_o ca < 8
              then nn_skip_counter_o ca + 1 else 0)"
    unfolding e unfolding f by (simp add: before_network_opt)
qed

lemma seven_reduces_opt:
  "run_opt \<lparr>srtt_us = 0, snd_cwnd = 200, snd_ssthresh = 100\<rparr>
     (replicate 7 (On_ssthresh \<lparr>srtt_us = 0, snd_cwnd = 200, snd_ssthresh = 100\<rparr>))
   = \<lparr>min_rtt_us_o = 0xFFFFFFFF, prior_cwnd_o = 200, ssthresh_o = 100, cached_cwnd_delta_o = 512,
       plasticity_o = 1007, shannon_entropy_o = 0, packets_acked_o = 0, history_index_o = 0,
       history_count_o = 0, flags_o = 14, nn_skip_counter_o = 0,
       hidden_state_o = replicate 4 0, rtt_history_o = replicate 8 0\<rparr>"
  by (simp add: run_opt_def replicate_unfold ndm_tcp_init_opt_def ndm_tcp_ssthresh_opt_def Let_def
        set_flag_def BASE_PLASTICITY_opt_def ENTROPY_THRESHOLD_opt_def FLAG_SLOW_START_def
        FLAG_LOSS_def FLAG_CONGESTION_def)


lemma run_opt_append:
  "run_opt tp0 (xs @ ys) = fold dispatch_opt ys (run_opt tp0 xs)"
  by (simp add: run_opt_def)

lemma stable_state_opt:
  "shannon_entropy_o (run_opt \<lparr>srtt_us = 0, snd_cwnd = 200, snd_ssthresh = 100\<rparr>
        (replicate 7 (On_ssthresh \<lparr>srtt_us = 0, snd_cwnd = 200, snd_ssthresh = 100\<rparr>)
         @ map (\<lambda>k. On_ack \<lparr>srtt_us = 8000 * k, snd_cwnd = 200, snd_ssthresh = 100\<rparr> 0 2)
             [0, 1, 2, 3, 4, 5, 6])) = 0"
  "plasticity_o (run_opt \<lparr>srtt_us = 0, snd_cwnd = 200, snd_ssthresh = 100\<rparr>
        (replicate 7 (On_ssthresh \<lparr>srtt_us = 0, snd_cwnd = 200, snd_ssthresh = 100\<rparr>)
         @ map (\<lambda>k. On_ack \<lparr>srtt_us = 8000 * k, snd_cwnd = 200, snd_ssthresh = 100\<rparr> 0 2)
             [0, 1, 2, 3, 4, 5, 6])) = 965"
  "nn_skip_counter_o (run_opt \<lparr>srtt_us = 0, snd_cwnd = 200, snd_ssthresh = 100\<rparr>
        (replicate 7 (On_ssthresh \<lparr>srtt_us = 0, snd_cwnd = 200, snd_ssthresh = 100\<rparr>)
         @ map (\<lambda>k. On_ack \<lparr>srtt_us = 8000 * k, snd_cwnd = 200, snd_ssthresh = 100\<rparr> 0 2)
             [0, 1, 2, 3, 4, 5, 6])) = 7"
  "packets_acked_o (run_opt \<lparr>srtt_us = 0, snd_cwnd = 200, snd_ssthresh = 100\<rparr>
        (replicate 7 (On_ssthresh \<lparr>srtt_us = 0, snd_cwnd = 200, snd_ssthresh = 100\<rparr>)
         @ map (\<lambda>k. On_ack \<lparr>srtt_us = 8000 * k, snd_cwnd = 200, snd_ssthresh = 100\<rparr> 0 2)
             [0, 1, 2, 3, 4, 5, 6])) = 14"
  "history_index_o (run_opt \<lparr>srtt_us = 0, snd_cwnd = 200, snd_ssthresh = 100\<rparr>
        (replicate 7 (On_ssthresh \<lparr>srtt_us = 0, snd_cwnd = 200, snd_ssthresh = 100\<rparr>)
         @ map (\<lambda>k. On_ack \<lparr>srtt_us = 8000 * k, snd_cwnd = 200, snd_ssthresh = 100\<rparr> 0 2)
             [0, 1, 2, 3, 4, 5, 6])) = 7"
  "history_count_o (run_opt \<lparr>srtt_us = 0, snd_cwnd = 200, snd_ssthresh = 100\<rparr>
        (replicate 7 (On_ssthresh \<lparr>srtt_us = 0, snd_cwnd = 200, snd_ssthresh = 100\<rparr>)
         @ map (\<lambda>k. On_ack \<lparr>srtt_us = 8000 * k, snd_cwnd = 200, snd_ssthresh = 100\<rparr> 0 2)
             [0, 1, 2, 3, 4, 5, 6])) = 7"
  "rtt_history_o (run_opt \<lparr>srtt_us = 0, snd_cwnd = 200, snd_ssthresh = 100\<rparr>
        (replicate 7 (On_ssthresh \<lparr>srtt_us = 0, snd_cwnd = 200, snd_ssthresh = 100\<rparr>)
         @ map (\<lambda>k. On_ack \<lparr>srtt_us = 8000 * k, snd_cwnd = 200, snd_ssthresh = 100\<rparr> 0 2)
             [0, 1, 2, 3, 4, 5, 6])) = [0, 1, 2, 3, 4, 5, 6, 0]"
  by (simp_all add: run_opt_append seven_reduces_opt cong_avoid_opt_fields
        cong_avoid_opt_plasticity_skip track_rtt_opt_fields plasticity_decay_opt_def
        PLASTICITY_DECAY_opt_def Let_def word_less_def word_le_def replicate_8)

lemma network_after_batch_opt:
  "shannon_entropy_o (batch_update_opt (track_rtt_opt (max (drop_bit 3 (srtt_us \<lparr>srtt_us = 56000, snd_cwnd = 200, snd_ssthresh = 100\<rparr>)) 1) 2
      (run_opt \<lparr>srtt_us = 0, snd_cwnd = 200, snd_ssthresh = 100\<rparr>
        (replicate 7 (On_ssthresh \<lparr>srtt_us = 0, snd_cwnd = 200, snd_ssthresh = 100\<rparr>)
         @ map (\<lambda>k. On_ack \<lparr>srtt_us = 8000 * k, snd_cwnd = 200, snd_ssthresh = 100\<rparr> 0 2)
             [0, 1, 2, 3, 4, 5, 6])))) = 3000"
proof -
  let ?S = "(run_opt \<lparr>srtt_us = 0, snd_cwnd = 200, snd_ssthresh = 100\<rparr>
        (replicate 7 (On_ssthresh \<lparr>srtt_us = 0, snd_cwnd = 200, snd_ssthresh = 100\<rparr>)
         @ map (\<lambda>k. On_ack \<lparr>srtt_us = 8000 * k, snd_cwnd = 200, snd_ssthresh = 100\<rparr> 0 2)
             [0, 1, 2, 3, 4, 5, 6]))"
  let ?t = "track_rtt_opt (max (drop_bit 3 (srtt_us \<lparr>srtt_us = 56000, snd_cwnd = 200, snd_ssthresh = 100\<rparr>)) 1) 2 ?S"
  have hist8: "rtt_history_o ?t = [0, 1, 2, 3, 4, 5, 6, 7]"
    by (simp only: track_rtt_opt_fields stable_state_opt) simp
  have cnt8: "history_count_o ?t = 8"
    by (simp only: track_rtt_opt_fields stable_state_opt) simp
  have vs: "valid_samples_opt ?t = [0, 1, 2, 3, 4, 5, 6, 7]"
    by (simp only: valid_samples_opt_def hist8 cnt8) simp
  have pk: "packets_acked_o ?t = 16"
    by (simp only: track_rtt_opt_fields stable_state_opt) simp
  show ?thesis
    by (simp only: batch_update_opt_fields pk entropy_fast_0_to_7 [OF vs]) simp
qed

lemma replicate_4: "replicate 4 x = [x, x, x, x]"
  by (simp add: numeral_eq_Suc)

lemma four_reduces_ultra:
  "(run_ultra \<lparr>srtt_us = 0, snd_cwnd = 200, snd_ssthresh = 100\<rparr> (replicate 4 (On_ssthresh \<lparr>srtt_us = 0, snd_cwnd = 200, snd_ssthresh = 100\<rparr>)))
   = \<lparr>min_rtt_us_u = 0xFFFFFFFF, prior_cwnd_u = 200, ssthresh_u = 100, cached_cwnd_delta_u = 512,
       packets_acked_u = 0, plasticity_u = 236, shannon_entropy_u = 0, history_index_u = 0,
       history_count_u = 0, flags_u = 14, nn_skip_counter_u = 0,
       hidden_state_u = replicate 4 0, rtt_history_u = replicate 8 0\<rparr>"
  by (simp add: run_ultra_def replicate_4 ndm_tcp_init_ultra_def ndm_tcp_ssthresh_ultra_def
        Let_def set_flag_ultra_def BASE_PLASTICITY_ultra_def ENTROPY_THRESHOLD_ultra_def
        FLAG_SLOW_START_def FLAG_LOSS_def FLAG_CONGESTION_def)

lemma batch_on_stable_opt:
  "batch_update_opt (track_rtt_opt (max (drop_bit 3 (srtt_us \<lparr>srtt_us = 80000, snd_cwnd = 200, snd_ssthresh = 100\<rparr>)) 1) 16
     (run_opt \<lparr>srtt_us = 0, snd_cwnd = 200, snd_ssthresh = 100\<rparr> (replicate 7 (On_ssthresh \<lparr>srtt_us = 0, snd_cwnd = 200, snd_ssthresh = 100\<rparr>))))
   = \<lparr>min_rtt_us_o = 10000, prior_cwnd_o = 200, ssthresh_o = 100, cached_cwnd_delta_o = 512,
       plasticity_o = 1007, shannon_entropy_o = 0, packets_acked_o = 0, history_index_o = 1,
       history_count_o = 1, flags_o = 7, nn_skip_counter_o = 0,
       hidden_state_o = replicate 4 0, rtt_history_o = [10, 0, 0, 0, 0, 0, 0, 0]\<rparr>"
  by (simp only: seven_reduces_opt)
     (simp add: batch_update_opt_def track_rtt_opt_def Let_def calculate_entropy_fast_def
        valid_samples_opt_def minmax_step_pair minmax_init_opt_def set_flag_def clear_flag_def
        FLAG_HAS_DATA_def FLAG_CONGESTION_def FLAG_LOSS_def ENTROPY_THRESHOLD_opt_def replicate_8
        word_le_def word_less_def)

lemma batch_on_stable_ultra:
  "batch_update_ultra (track_rtt_ultra (max (drop_bit 3 (srtt_us \<lparr>srtt_us = 80000, snd_cwnd = 200, snd_ssthresh = 100\<rparr>)) 1) 16
     (run_ultra \<lparr>srtt_us = 0, snd_cwnd = 200, snd_ssthresh = 100\<rparr> (replicate 4 (On_ssthresh \<lparr>srtt_us = 0, snd_cwnd = 200, snd_ssthresh = 100\<rparr>))))
   = \<lparr>min_rtt_us_u = 10000, prior_cwnd_u = 200, ssthresh_u = 100, cached_cwnd_delta_u = 512,
       packets_acked_u = 0, plasticity_u = 236, shannon_entropy_u = 66, history_index_u = 1,
       history_count_u = 1, flags_u = 7, nn_skip_counter_u = 0,
       hidden_state_u = replicate 4 0, rtt_history_u = [255, 0, 0, 0, 0, 0, 0, 0]\<rparr>"
  by (simp only: four_reduces_ultra)
     (simp add: batch_update_ultra_def track_rtt_ultra_def Let_def calculate_entropy_fast_u8_def
        minmax_step_ultra_def bin_shift_ultra_def hist_step_ultra_def lut_step_ultra_def
        ENTROPY_LUT_ultra_def set_flag_ultra_def clear_flag_ultra_def
        FLAG_HAS_DATA_def FLAG_CONGESTION_def FLAG_LOSS_def ENTROPY_THRESHOLD_ultra_def replicate_8
        word_le_def word_less_def)

text \<open>
  Reachable states of each tier.  After seven reduce requests (four in the ultra tier) an
  acknowledgment of 16 packets at 10 ms is a batch boundary with a low score (0; 66 in
  the ultra tier): the cached signal 512 is reused, the skip counter becomes 1 and the
  growth call is \<open>tcp_cong_avoid_ai\<close> with 16 * 512 >> 11 = 4.  After seven more
  acknowledgments of two packets at 0 to 6 ms the optimized tier has entropy 0,
  plasticity 965 and skip counter 7; the next one, at 7 ms, is a batch boundary that
  stores the score 3000, so the network runs and the skip counter becomes 0.  On the
  initial state of the ultra tier plasticity is 76 and the network runs.
\<close>

theorem compute_elision_witness:
  "(let (ca', call) = ndm_tcp_cong_avoid_opt \<lparr>srtt_us = 80000, snd_cwnd = 200, snd_ssthresh = 100\<rparr> 0 16
        (run_opt \<lparr>srtt_us = 0, snd_cwnd = 200, snd_ssthresh = 100\<rparr> (replicate 7 (On_ssthresh \<lparr>srtt_us = 0, snd_cwnd = 200, snd_ssthresh = 100\<rparr>)))
    in unat (nn_skip_counter_o ca') = 1 \<and> cached_cwnd_delta_o ca' = 512
       \<and> call = Some (Tcp_cong_avoid_ai 200 4))
   \<and> shannon_entropy_o (run_opt \<lparr>srtt_us = 0, snd_cwnd = 200, snd_ssthresh = 100\<rparr>
        (replicate 7 (On_ssthresh \<lparr>srtt_us = 0, snd_cwnd = 200, snd_ssthresh = 100\<rparr>)
         @ map (\<lambda>k. On_ack \<lparr>srtt_us = 8000 * k, snd_cwnd = 200, snd_ssthresh = 100\<rparr> 0 2)
             [0, 1, 2, 3, 4, 5, 6])) = 0
   \<and> plasticity_o (run_opt \<lparr>srtt_us = 0, snd_cwnd = 200, snd_ssthresh = 100\<rparr>
        (replicate 7 (On_ssthresh \<lparr>srtt_us = 0, snd_cwnd = 200, snd_ssthresh = 100\<rparr>)
         @ map (\<lambda>k. On_ack \<lparr>srtt_us = 8000 * k, snd_cwnd = 200, snd_ssthresh = 100\<rparr> 0 2)
             [0, 1, 2, 3, 4, 5, 6])) = 965
   \<and> nn_skip_counter_o (run_opt \<lparr>srtt_us = 0, snd_cwnd = 200, snd_ssthresh = 100\<rparr>
        (replicate 7 (On_ssthresh \<lparr>srtt_us = 0, snd_cwnd = 200, snd_ssthresh = 100\<rparr>)
         @ map (\<lambda>k. On_ack \<lparr>srtt_us = 8000 * k, snd_cwnd = 200, snd_ssthresh = 100\<rparr> 0 2)
             [0, 1, 2, 3, 4, 5, 6])) = 7
   \<and> nn_skip_counter_o (fst (ndm_tcp_cong_avoid_opt \<lparr>srtt_us = 56000, snd_cwnd = 200, snd_ssthresh = 100\<rparr> 0 2
        (run_opt \<lparr>srtt_us = 0, snd_cwnd = 200, snd_ssthresh = 100\<rparr>
        (replicate 7 (On_ssthresh \<lparr>srtt_us = 0, snd_cwnd = 200, snd_ssthresh = 100\<rparr>)
         @ map (\<lambda>k. On_ack \<lparr>srtt_us = 8000 * k, snd_cwnd = 200, snd_ssthresh = 100\<rparr> 0 2)
             [0, 1, 2, 3, 4, 5, 6])))) = 0
   \<and> (let (cu', call) = ndm_tcp_cong_avoid_ultra \<lparr>srtt_us = 80000, snd_cwnd = 200, snd_ssthresh = 100\<rparr> 0 16
        (run_ultra \<lparr>srtt_us = 0, snd_cwnd = 200, snd_ssthresh = 100\<rparr> (replicate 4 (On_ssthresh \<lparr>srtt_us = 0, snd_cwnd = 200, snd_ssthresh = 100\<rparr>)))
       in unat (nn_skip_counter_u cu') = 1 \<and> cached_cwnd_delta_u cu' = 512
          \<and> call = Some (Tcp_cong_avoid_ai 200 4))
   \<and> nn_skip_counter_u (fst (ndm_tcp_cong_avoid_ultra \<lparr>srtt_us = 80000, snd_cwnd = 200, snd_ssthresh = 100\<rparr> 0 1 (fst (ndm_tcp_init_ultra \<lparr>srtt_us = 0, snd_cwnd = 200, snd_ssthresh = 100\<rparr>)))) = 0"
proof -
  have nz: "(2 :: u32) \<noteq> 0" "(16 :: u32) \<noteq> 0" "(1 :: u32) \<noteq> 0" by simp_all
  note tn = compute_elision [where acked = 2 and ack = 0 and tp = "\<lparr>srtt_us = 56000, snd_cwnd = 200, snd_ssthresh = 100\<rparr>"
      and ca = "(run_opt \<lparr>srtt_us = 0, snd_cwnd = 200, snd_ssthresh = 100\<rparr>
        (replicate 7 (On_ssthresh \<lparr>srtt_us = 0, snd_cwnd = 200, snd_ssthresh = 100\<rparr>)
         @ map (\<lambda>k. On_ack \<lparr>srtt_us = 8000 * k, snd_cwnd = 200, snd_ssthresh = 100\<rparr> 0 2)
             [0, 1, 2, 3, 4, 5, 6]))", THEN conjunct1, rule_format, OF nz(1)]
  from tn network_after_batch_opt
  have n: "nn_skip_counter_o (fst (ndm_tcp_cong_avoid_opt \<lparr>srtt_us = 56000, snd_cwnd = 200, snd_ssthresh = 100\<rparr> 0 2
        (run_opt \<lparr>srtt_us = 0, snd_cwnd = 200, snd_ssthresh = 100\<rparr>
        (replicate 7 (On_ssthresh \<lparr>srtt_us = 0, snd_cwnd = 200, snd_ssthresh = 100\<rparr>)
         @ map (\<lambda>k. On_ack \<lparr>srtt_us = 8000 * k, snd_cwnd = 200, snd_ssthresh = 100\<rparr> 0 2)
             [0, 1, 2, 3, 4, 5, 6])))) = 0"
    by (simp add: Let_def split_def)
  note te = compute_elision [where acked = 16 and ack = 0 and tp = "\<lparr>srtt_us = 80000, snd_cwnd = 200, snd_ssthresh = 100\<rparr>"
      and ca = "(run_opt \<lparr>srtt_us = 0, snd_cwnd = 200, snd_ssthresh = 100\<rparr> (replicate 7 (On_ssthresh \<lparr>srtt_us = 0, snd_cwnd = 200, snd_ssthresh = 100\<rparr>)))", THEN conjunct1, rule_format, OF nz(2)]
  have pe: "plasticity_o (run_opt \<lparr>srtt_us = 0, snd_cwnd = 200, snd_ssthresh = 100\<rparr> (replicate 7 (On_ssthresh \<lparr>srtt_us = 0, snd_cwnd = 200, snd_ssthresh = 100\<rparr>))) = 1007"
    "nn_skip_counter_o (run_opt \<lparr>srtt_us = 0, snd_cwnd = 200, snd_ssthresh = 100\<rparr> (replicate 7 (On_ssthresh \<lparr>srtt_us = 0, snd_cwnd = 200, snd_ssthresh = 100\<rparr>))) = 0"
    "cached_cwnd_delta_o (run_opt \<lparr>srtt_us = 0, snd_cwnd = 200, snd_ssthresh = 100\<rparr> (replicate 7 (On_ssthresh \<lparr>srtt_us = 0, snd_cwnd = 200, snd_ssthresh = 100\<rparr>))) = 512"
    by (simp_all only: seven_reduces_opt) simp_all
  from te
  have e: "let (ca', call) = ndm_tcp_cong_avoid_opt \<lparr>srtt_us = 80000, snd_cwnd = 200, snd_ssthresh = 100\<rparr> 0 16
        (run_opt \<lparr>srtt_us = 0, snd_cwnd = 200, snd_ssthresh = 100\<rparr> (replicate 7 (On_ssthresh \<lparr>srtt_us = 0, snd_cwnd = 200, snd_ssthresh = 100\<rparr>)))
    in unat (nn_skip_counter_o ca') = 1 \<and> cached_cwnd_delta_o ca' = 512
       \<and> call = Some (Tcp_cong_avoid_ai 200 4)"
    unfolding Let_def split_def batch_on_stable_opt pe
    by (simp add: growth_call_opt_def check_flag_def clear_flag_def set_flag_def
          FLAG_SLOW_START_def FLAG_HAS_DATA_def FLAG_CONGESTION_def)
  note tu = compute_elision [where acked = 16 and ack = 0 and tp = "\<lparr>srtt_us = 80000, snd_cwnd = 200, snd_ssthresh = 100\<rparr>"
      and cu = "(run_ultra \<lparr>srtt_us = 0, snd_cwnd = 200, snd_ssthresh = 100\<rparr> (replicate 4 (On_ssthresh \<lparr>srtt_us = 0, snd_cwnd = 200, snd_ssthresh = 100\<rparr>)))", THEN conjunct2, THEN conjunct2, THEN conjunct1, rule_format, OF nz(2)]
  have pu: "plasticity_u (run_ultra \<lparr>srtt_us = 0, snd_cwnd = 200, snd_ssthresh = 100\<rparr> (replicate 4 (On_ssthresh \<lparr>srtt_us = 0, snd_cwnd = 200, snd_ssthresh = 100\<rparr>))) = 236"
    "nn_skip_counter_u (run_ultra \<lparr>srtt_us = 0, snd_cwnd = 200, snd_ssthresh = 100\<rparr> (replicate 4 (On_ssthresh \<lparr>srtt_us = 0, snd_cwnd = 200, snd_ssthresh = 100\<rparr>))) = 0"
    "cached_cwnd_delta_u (run_ultra \<lparr>srtt_us = 0, snd_cwnd = 200, snd_ssthresh = 100\<rparr> (replicate 4 (On_ssthresh \<lparr>srtt_us = 0, snd_cwnd = 200, snd_ssthresh = 100\<rparr>))) = 512"
    by (simp_all only: four_reduces_ultra) simp_all
  from tu
  have u: "let (cu', call) = ndm_tcp_cong_avoid_ultra \<lparr>srtt_us = 80000, snd_cwnd = 200, snd_ssthresh = 100\<rparr> 0 16
        (run_ultra \<lparr>srtt_us = 0, snd_cwnd = 200, snd_ssthresh = 100\<rparr> (replicate 4 (On_ssthresh \<lparr>srtt_us = 0, snd_cwnd = 200, snd_ssthresh = 100\<rparr>)))
       in unat (nn_skip_counter_u cu') = 1 \<and> cached_cwnd_delta_u cu' = 512
          \<and> call = Some (Tcp_cong_avoid_ai 200 4)"
    unfolding Let_def split_def batch_on_stable_ultra pu
    by (simp add: growth_call_ultra_def check_flag_ultra_def clear_flag_ultra_def
          set_flag_ultra_def FLAG_SLOW_START_def FLAG_HAS_DATA_def FLAG_CONGESTION_def)
  note ti = compute_elision [where acked = 1 and ack = 0 and tp = "\<lparr>srtt_us = 80000, snd_cwnd = 200, snd_ssthresh = 100\<rparr>"
      and cu = "(fst (ndm_tcp_init_ultra \<lparr>srtt_us = 0, snd_cwnd = 200, snd_ssthresh = 100\<rparr>))", THEN conjunct2, THEN conjunct2, THEN conjunct1, rule_format, OF nz(3)]
  have "plasticity_u (fst (ndm_tcp_init_ultra \<lparr>srtt_us = 0, snd_cwnd = 200, snd_ssthresh = 100\<rparr>)) = 76"
    by (simp add: ndm_tcp_init_ultra_def BASE_PLASTICITY_ultra_def)
  with ti
  have i: "nn_skip_counter_u (fst (ndm_tcp_cong_avoid_ultra \<lparr>srtt_us = 80000, snd_cwnd = 200, snd_ssthresh = 100\<rparr> 0 1 (fst (ndm_tcp_init_ultra \<lparr>srtt_us = 0, snd_cwnd = 200, snd_ssthresh = 100\<rparr>)))) = 0"
    by (simp add: Let_def split_def)
  from e n u i stable_state_opt(1-3) show ?thesis
    by blast
qed

subsection \<open>Acknowledgments of zero packets\<close>

text \<open>
  C8, as amended.  In the base, optimized and ultra tiers an acknowledgment of zero
  packets returns the state unchanged and makes no host call.  The hyper tier does not
  look at the count: it ignores an acknowledgment, whatever its count, when the host
  reports that the connection is not limited by its window.
\<close>

theorem zero_ack_ignored:
  "ndm_tcp_cong_avoid tp ack 0 ca = (ca, None)
   \<and> ndm_tcp_cong_avoid_opt tp ack 0 co = (co, None)
   \<and> ndm_tcp_cong_avoid_ultra tp ack 0 cu = (cu, None)
   \<and> ndm_tcp_cong_avoid_hyp False tp ack acked ch = (ch, tp, None)"
  by (simp add: ndm_tcp_cong_avoid_def ndm_tcp_cong_avoid_opt_def ndm_tcp_cong_avoid_ultra_def
        ndm_tcp_cong_avoid_hyp_def)

text \<open>
  C8 as stated fails in the hyper tier: on a window-limited connection in congestion
  avoidance an acknowledgment of zero packets at 1 ms updates the entropy register, the
  last RTT and the minimum RTT, and increments the window from 10 to 11.
\<close>

theorem zero_ack_hyp_counterexample:
  "ndm_tcp_cong_avoid_hyp True \<lparr>srtt_us = 8000, snd_cwnd = 10, snd_ssthresh = 5\<rparr> 0 0
       ndm_tcp_init_hyp
     = (\<lparr>min_rtt_h = 1000, last_ack_h = 0, plasticity_h = 100, entropy_hist_h = 1,
          entropy_val_h = 1, rtt_var_h = 1000\<rparr>,
        \<lparr>srtt_us = 8000, snd_cwnd = 11, snd_ssthresh = 5\<rparr>, None)
   \<and> ndm_tcp_cong_avoid_hyp True \<lparr>srtt_us = 8000, snd_cwnd = 10, snd_ssthresh = 5\<rparr> 0 0
       ndm_tcp_init_hyp
     \<noteq> (ndm_tcp_init_hyp, \<lparr>srtt_us = 8000, snd_cwnd = 10, snd_ssthresh = 5\<rparr>, None)"
proof -
  have bits: "filter (bit (1 :: u8)) [0..<8] = [0]"
    by (simp add: upt_0_8 bit_1_iff)
  have e: "update_entropy 1000 \<lparr>min_rtt_h = 0xFFFFFFFF, last_ack_h = 0, plasticity_h = 100,
          entropy_hist_h = 0, entropy_val_h = 0, rtt_var_h = 0\<rparr>
     = \<lparr>min_rtt_h = 0xFFFFFFFF, last_ack_h = 0, plasticity_h = 100, entropy_hist_h = 1,
          entropy_val_h = 1, rtt_var_h = 1000\<rparr>"
    by (simp add: update_entropy_def Let_def hweight8_def bits)
  have g: "hyper_manifold \<lparr>srtt_us = 8000, snd_cwnd = 10, snd_ssthresh = 5\<rparr>
             \<lparr>min_rtt_h = 1000, last_ack_h = 0, plasticity_h = 100, entropy_hist_h = 1,
              entropy_val_h = 1, rtt_var_h = 1000\<rparr> = 6"
    by (simp add: hyper_manifold_def Let_def BASE_def s32_def)
  show ?thesis
    by (simp add: ndm_tcp_cong_avoid_hyp_def Let_def e g ndm_tcp_init_hyp_def)
qed

text \<open>An acknowledgment of zero packets on the initial state of each tier.\<close>

theorem zero_ack_ignored_witness:
  "ndm_tcp_cong_avoid \<lparr>srtt_us = 80000, snd_cwnd = 10, snd_ssthresh = 100\<rparr> 7 0 (fst (ndm_tcp_init \<lparr>srtt_us = 80000, snd_cwnd = 10, snd_ssthresh = 100\<rparr>))
     = (fst (ndm_tcp_init \<lparr>srtt_us = 80000, snd_cwnd = 10, snd_ssthresh = 100\<rparr>), None)
   \<and> ndm_tcp_cong_avoid_opt \<lparr>srtt_us = 80000, snd_cwnd = 10, snd_ssthresh = 100\<rparr> 7 0 (fst (ndm_tcp_init_opt \<lparr>srtt_us = 80000, snd_cwnd = 10, snd_ssthresh = 100\<rparr>))
     = (fst (ndm_tcp_init_opt \<lparr>srtt_us = 80000, snd_cwnd = 10, snd_ssthresh = 100\<rparr>), None)
   \<and> ndm_tcp_cong_avoid_ultra \<lparr>srtt_us = 80000, snd_cwnd = 10, snd_ssthresh = 100\<rparr> 7 0 (fst (ndm_tcp_init_ultra \<lparr>srtt_us = 80000, snd_cwnd = 10, snd_ssthresh = 100\<rparr>))
     = (fst (ndm_tcp_init_ultra \<lparr>srtt_us = 80000, snd_cwnd = 10, snd_ssthresh = 100\<rparr>), None)
   \<and> ndm_tcp_cong_avoid_hyp False \<lparr>srtt_us = 80000, snd_cwnd = 10, snd_ssthresh = 100\<rparr> 7 0 ndm_tcp_init_hyp
     = (ndm_tcp_init_hyp, \<lparr>srtt_us = 80000, snd_cwnd = 10, snd_ssthresh = 100\<rparr>, None)"
  by (rule zero_ack_ignored)

subsection \<open>Undo\<close>

text \<open>
  C3, as amended.  In the base tier undo sets the window to the larger of the current
  window and \<open>prior_cwnd\<close>, returns it, and recomputes \<open>in_slow_start\<close> as (restored window
  below \<open>ssthresh\<close>); after a reduce request the value returned is at least the window
  of that request.  The optimized tier restores and returns the window the same way.  The
  hyper tier saves no window and its undo returns the current window.
\<close>

theorem undo_restores_window:
  "(let (ca', tp', r) = ndm_tcp_undo_cwnd tp ca
    in snd_cwnd tp' = max (snd_cwnd tp) (prior_cwnd ca) \<and> r = snd_cwnd tp'
       \<and> prior_cwnd ca \<le> r \<and> snd_cwnd tp \<le> r
       \<and> ca' = ca\<lparr>in_slow_start := (r < ssthresh ca)\<rparr>)
   \<and> (let (ca1, s) = ndm_tcp_ssthresh tp1 ca;
           (ca2, tp2, r) = ndm_tcp_undo_cwnd tp ca1
       in snd_cwnd tp1 \<le> r)
   \<and> (let (co', tp', r) = ndm_tcp_undo_cwnd_opt tp co
       in snd_cwnd tp' = max (snd_cwnd tp) (prior_cwnd_o co) \<and> r = snd_cwnd tp'
          \<and> prior_cwnd_o co \<le> r \<and> snd_cwnd tp \<le> r)
   \<and> ndm_tcp_undo tp = snd_cwnd tp"
  by (simp add: ndm_tcp_undo_cwnd_def ndm_tcp_undo_cwnd_opt_def ndm_tcp_undo_def
        ndm_tcp_ssthresh_def Let_def)

text \<open>
  C3 as stated fails in the hyper tier: a reduce request at window 100 returns 50, and
  an undo with the window then at 50 returns 50, below the window of the reduce request.
\<close>

theorem undo_hyp_counterexample:
  "snd (ndm_tcp_ssthresh_hyp \<lparr>srtt_us = 8000, snd_cwnd = 100, snd_ssthresh = 200\<rparr>
          ndm_tcp_init_hyp) = 50
   \<and> ndm_tcp_undo \<lparr>srtt_us = 8000, snd_cwnd = 50, snd_ssthresh = 50\<rparr> = 50
   \<and> \<not> snd_cwnd \<lparr>srtt_us = 8000, snd_cwnd = 100, snd_ssthresh = 200\<rparr>
         \<le> ndm_tcp_undo \<lparr>srtt_us = 8000, snd_cwnd = 50, snd_ssthresh = 50\<rparr>"
  by (simp add: ndm_tcp_ssthresh_hyp_def ndm_tcp_undo_def ndm_tcp_init_hyp_def Let_def)


text \<open>A reduce request at window 100, then an undo with the window at 50: the base tier
  restores 100, the hyper tier returns 50.\<close>

theorem undo_restores_window_witness:
  "(let (ca1, s) = ndm_tcp_ssthresh \<lparr>srtt_us = 80000, snd_cwnd = 100, snd_ssthresh = 200\<rparr>
                      (fst (ndm_tcp_init \<lparr>srtt_us = 80000, snd_cwnd = 10, snd_ssthresh = 200\<rparr>));
        (ca2, tp2, r) = ndm_tcp_undo_cwnd \<lparr>srtt_us = 80000, snd_cwnd = 50, snd_ssthresh = 50\<rparr> ca1
    in s = 50 \<and> r = 100 \<and> snd_cwnd tp2 = 100 \<and> in_slow_start ca2 = False)
   \<and> ndm_tcp_undo \<lparr>srtt_us = 80000, snd_cwnd = 50, snd_ssthresh = 50\<rparr> = 50"
  using undo_restores_window
    [of "\<lparr>srtt_us = 80000, snd_cwnd = 50, snd_ssthresh = 50\<rparr>"
        "fst (ndm_tcp_ssthresh \<lparr>srtt_us = 80000, snd_cwnd = 100, snd_ssthresh = 200\<rparr>
                      (fst (ndm_tcp_init \<lparr>srtt_us = 80000, snd_cwnd = 10, snd_ssthresh = 200\<rparr>)))"]
  by (simp add: split_def Let_def ndm_tcp_ssthresh_def ndm_tcp_init_def)

text \<open>The undo of the optimized tier sets the slow-start flag and never clears it.\<close>

lemma undo_opt_keeps_flag:
  assumes "check_flag co FLAG_SLOW_START"
  shows "check_flag (fst (ndm_tcp_undo_cwnd_opt tp co)) FLAG_SLOW_START"
proof -
  have "(flags_o co OR FLAG_SLOW_START) AND FLAG_SLOW_START = FLAG_SLOW_START"
    by (simp add: word_bw_comms word_ao_absorbs)
  with assms show ?thesis
    by (simp add: ndm_tcp_undo_cwnd_opt_def Let_def set_flag_def check_flag_def FLAG_SLOW_START_def)
qed

end
